theory Spec2Isabelle
  imports Main "HOL-Library.AList"
begin

section \<open>JavaScript values\<close>

text \<open>
  The client reads decoded JSON bodies (\<open>any\<close>) and header strings. A number is an exact
  integer or \<open>NaN\<close> (what \<open>parseInt\<close> yields); fractions and rounding beyond the safe
  integer range are outside the model. An object is the association list of its own
  enumerable properties, keys distinct.
\<close>

datatype jsnum = NaN | Num int

datatype jsval = JUndefined | JNull | JBool bool | JNum jsnum | JStr string
  | JArr "jsval list" | JObj "(string \<times> jsval) list"

text \<open>Truthiness, as used by \<open>if (x)\<close>, \<open>x || y\<close>, \<open>x && y\<close> and \<open>c ? a : b\<close>.\<close>

fun truthy :: "jsval \<Rightarrow> bool" where
  "truthy JUndefined = False"
| "truthy JNull = False"
| "truthy (JBool b) = b"
| "truthy (JNum NaN) = False"
| "truthy (JNum (Num n)) = (n \<noteq> 0)"
| "truthy (JStr s) = (s \<noteq> [])"
| "truthy (JArr xs) = True"
| "truthy (JObj kvs) = True"

definition digit_char :: "nat \<Rightarrow> char" where
  "digit_char d = ''0123456789'' ! d"

function string_of_nat :: "nat \<Rightarrow> string" where
  "string_of_nat n =
     (if n < 10 then [digit_char n] else string_of_nat (n div 10) @ [digit_char (n mod 10)])"
  by pat_completeness auto
termination
  by (relation "measure id") auto

declare string_of_nat.simps [simp del]

definition string_of_int :: "int \<Rightarrow> string" where
  "string_of_int i =
     (if i < 0 then CHR ''-'' # string_of_nat (nat (- i)) else string_of_nat (nat i))"

fun join_with :: "string \<Rightarrow> string list \<Rightarrow> string" where
  "join_with sep [] = []"
| "join_with sep [s] = s"
| "join_with sep (s # t # ss) = s @ sep @ join_with sep (t # ss)"

text \<open>\<open>String(v)\<close>: the coercion applied to a property key and to an \<open>Error\<close> message.\<close>

fun js_toString :: "jsval \<Rightarrow> string" where
  "js_toString JUndefined = ''undefined''"
| "js_toString JNull = ''null''"
| "js_toString (JBool b) = (if b then ''true'' else ''false'')"
| "js_toString (JNum NaN) = ''NaN''"
| "js_toString (JNum (Num n)) = string_of_int n"
| "js_toString (JStr s) = s"
| "js_toString (JArr xs) =
     join_with '','' (map (\<lambda>x. if x = JUndefined \<or> x = JNull then [] else js_toString x) xs)"
| "js_toString (JObj kvs) = ''[object Object]''"

text \<open>
  The own enumerable properties of a value, as object spread and \<open>Object.assign\<close> copy
  them: an array's and a string's elements under their indices, nothing for the other
  primitives.
\<close>

definition indexed :: "'a list \<Rightarrow> (string \<times> 'a) list" where
  "indexed xs = zip (map string_of_nat [0..<length xs]) xs"

fun own_entries :: "jsval \<Rightarrow> (string \<times> jsval) list" where
  "own_entries (JObj kvs) = kvs"
| "own_entries (JArr xs) = indexed xs"
| "own_entries (JStr s) = indexed (map (\<lambda>c. JStr [c]) s)"
| "own_entries v = []"

text \<open>
  \<open>v[k]\<close> on a value that is neither \<open>null\<close> nor \<open>undefined\<close>. The names this client
  reads on a decoded body are not properties of a number or a boolean, nor inherited from
  \<open>Object.prototype\<close>; a string and an array answer for their indices and \<open>length\<close>.
\<close>

fun get_prop :: "jsval \<Rightarrow> string \<Rightarrow> jsval" where
  "get_prop (JObj kvs) k = (case map_of kvs k of Some v \<Rightarrow> v | None \<Rightarrow> JUndefined)"
| "get_prop (JArr xs) k =
     (if k = ''length'' then JNum (Num (int (length xs)))
      else case map_of (indexed xs) k of Some v \<Rightarrow> v | None \<Rightarrow> JUndefined)"
| "get_prop (JStr s) k =
     (if k = ''length'' then JNum (Num (int (length s)))
      else case map_of (indexed (map (\<lambda>c. JStr [c]) s)) k of Some v \<Rightarrow> v | None \<Rightarrow> JUndefined)"
| "get_prop v k = JUndefined"

text \<open>\<open>v.k\<close>: a \<open>TypeError\<close> (here \<open>None\<close>) on \<open>null\<close> and \<open>undefined\<close>.\<close>

definition member :: "jsval \<Rightarrow> string \<Rightarrow> jsval option" where
  "member v k = (if v = JUndefined \<or> v = JNull then None else Some (get_prop v k))"

text \<open>\<open>v?.k\<close>: \<open>undefined\<close> on \<open>null\<close> and \<open>undefined\<close>.\<close>

definition opt_member :: "jsval \<Rightarrow> string \<Rightarrow> jsval" where
  "opt_member v k = (if v = JUndefined \<or> v = JNull then JUndefined else get_prop v k)"

text \<open>\<open>k in v\<close>: a \<open>TypeError\<close> (here \<open>None\<close>) unless \<open>v\<close> is an object or an array.\<close>

fun js_in :: "string \<Rightarrow> jsval \<Rightarrow> bool option" where
  "js_in k (JObj kvs) = Some (k \<in> fst ` set kvs)"
| "js_in k (JArr xs) = Some (k = ''length'' \<or> k \<in> fst ` set (indexed xs))"
| "js_in k v = None"

definition typeof_object :: "jsval \<Rightarrow> bool" where
  "typeof_object v = (case v of JNull \<Rightarrow> True | JArr xs \<Rightarrow> True | JObj kvs \<Rightarrow> True | _ \<Rightarrow> False)"

definition isArray :: "jsval \<Rightarrow> bool" where
  "isArray v = (case v of JArr xs \<Rightarrow> True | _ \<Rightarrow> False)"

definition array_items :: "jsval \<Rightarrow> jsval list" where
  "array_items v = (case v of JArr xs \<Rightarrow> xs | _ \<Rightarrow> [])"

text \<open>\<open>a || b\<close> and the spread \<open>...(c && o)\<close> of an object literal.\<close>

definition js_or :: "jsval \<Rightarrow> jsval \<Rightarrow> jsval" where
  "js_or a b = (if truthy a then a else b)"

definition spread_if :: "jsval \<Rightarrow> (string \<times> jsval) list \<Rightarrow> (string \<times> jsval) list" where
  "spread_if c props = (if truthy c then props else [])"

subsection \<open>parseInt\<close>

text \<open>
  \<open>parseInt(s)\<close> with no radix: leading white space is skipped, a sign is read, a
  \<open>0x\<close> prefix selects radix 16, and the longest prefix of digits is the value; no digit
  at all is \<open>NaN\<close>.
\<close>

definition is_space :: "char \<Rightarrow> bool" where
  "is_space c = (of_char c \<in> {9::nat, 10, 11, 12, 13, 32, 160})"

definition digit_val :: "nat \<Rightarrow> char \<Rightarrow> nat option" where
  "digit_val radix c =
     (let k = (of_char c :: nat);
          v = (if 48 \<le> k \<and> k \<le> 57 then Some (k - 48)
               else if 97 \<le> k \<and> k \<le> 122 then Some (k - 87)
               else if 65 \<le> k \<and> k \<le> 90 then Some (k - 55)
               else None)
      in case v of None \<Rightarrow> None | Some d \<Rightarrow> if d < radix then Some d else None)"

fun digits_value :: "nat \<Rightarrow> nat \<Rightarrow> string \<Rightarrow> nat" where
  "digits_value radix acc [] = acc"
| "digits_value radix acc (c # cs) =
     (case digit_val radix c of
        None \<Rightarrow> acc
      | Some d \<Rightarrow> digits_value radix (acc * radix + d) cs)"

definition has_hex_prefix :: "string \<Rightarrow> bool" where
  "has_hex_prefix s = (take 2 s = ''0x'' \<or> take 2 s = ''0X'')"

definition parseInt :: "string \<Rightarrow> jsnum" where
  "parseInt inputString =
     (let S = dropWhile is_space inputString;
          sign = (if S \<noteq> [] \<and> hd S = CHR ''-'' then - 1 else (1::int));
          S1 = (if S \<noteq> [] \<and> (hd S = CHR ''+'' \<or> hd S = CHR ''-'') then tl S else S);
          hex = has_hex_prefix S1;
          R = (if hex then 16 else 10);
          S2 = (if hex then drop 2 S1 else S1)
      in if S2 = [] \<or> digit_val R (hd S2) = None then NaN
         else Num (sign * int (digits_value R 0 S2)))"

section \<open>Error taxonomy (errors.ts)\<close>

text \<open>The class of an error, as \<open>instanceof\<close> tells it; \<open>ValidKitError\<close> is the base class.\<close>

datatype error_class = ValidKitError | InvalidAPIKeyError | RateLimitError | BatchSizeError
  | TimeoutError | ConnectionError | ServerError | ValidationError | BatchJobError

record error =
  error_class :: error_class
  message :: string
  code :: jsval
  statusCode :: "nat option"
  details :: jsval
  rateLimit :: jsval

definition new_ValidKitError :: "jsval \<Rightarrow> nat option \<Rightarrow> jsval \<Rightarrow> error" where
  "new_ValidKitError msg status dets =
     \<lparr>error_class = ValidKitError, message = js_toString msg, code = JStr ''VALIDKIT_ERROR'',
      statusCode = status, details = dets, rateLimit = JUndefined\<rparr>"

definition new_InvalidAPIKeyError :: "jsval \<Rightarrow> jsval \<Rightarrow> error" where
  "new_InvalidAPIKeyError msg dets =
     \<lparr>error_class = InvalidAPIKeyError, message = js_toString msg, code = JStr ''INVALID_API_KEY'',
      statusCode = Some 401, details = dets, rateLimit = JUndefined\<rparr>"

definition new_RateLimitError :: "jsval \<Rightarrow> jsval \<Rightarrow> error" where
  "new_RateLimitError msg dets =
     \<lparr>error_class = RateLimitError, message = js_toString msg, code = JStr ''RATE_LIMIT_EXCEEDED'',
      statusCode = Some 429, details = dets,
      rateLimit = (if truthy (opt_member dets ''rate_limit'') then opt_member dets ''rate_limit''
                   else JUndefined)\<rparr>"

definition new_BatchSizeError :: "jsval \<Rightarrow> jsval \<Rightarrow> error" where
  "new_BatchSizeError msg dets =
     \<lparr>error_class = BatchSizeError, message = js_toString msg, code = JStr ''BATCH_SIZE_EXCEEDED'',
      statusCode = Some 400, details = dets, rateLimit = JUndefined\<rparr>"

definition new_TimeoutError :: "jsval \<Rightarrow> jsval \<Rightarrow> error" where
  "new_TimeoutError msg dets =
     \<lparr>error_class = TimeoutError, message = js_toString msg, code = JStr ''TIMEOUT'',
      statusCode = Some 408, details = dets, rateLimit = JUndefined\<rparr>"

definition new_ConnectionError :: "jsval \<Rightarrow> jsval \<Rightarrow> error" where
  "new_ConnectionError msg dets =
     \<lparr>error_class = ConnectionError, message = js_toString msg, code = JStr ''CONNECTION_ERROR'',
      statusCode = Some 0, details = dets, rateLimit = JUndefined\<rparr>"

definition new_ServerError :: "jsval \<Rightarrow> jsval \<Rightarrow> error" where
  "new_ServerError msg dets =
     \<lparr>error_class = ServerError, message = js_toString msg, code = JStr ''SERVER_ERROR'',
      statusCode = Some 500, details = dets, rateLimit = JUndefined\<rparr>"

definition new_ValidationError :: "jsval \<Rightarrow> jsval \<Rightarrow> error" where
  "new_ValidationError msg dets =
     \<lparr>error_class = ValidationError, message = js_toString msg, code = JStr ''VALIDATION_ERROR'',
      statusCode = Some 400, details = dets, rateLimit = JUndefined\<rparr>"

text \<open>
  \<open>ValidKitError.fromApiResponse(response, errorData)\<close>, on the response's \<open>status\<close> and
  \<open>statusText\<close>; an absent \<open>errorData\<close> is \<open>JUndefined\<close>.
\<close>

definition fromApiResponse :: "nat \<Rightarrow> string \<Rightarrow> jsval \<Rightarrow> error" where
  "fromApiResponse status statusText errorData =
     (let msg = opt_member errorData ''message'';
          dets = opt_member errorData ''details''
      in if status = 401 then
           new_InvalidAPIKeyError (js_or msg (JStr ''Invalid or missing API key'')) dets
         else if status = 429 then
           new_RateLimitError (js_or msg (JStr ''Rate limit exceeded'')) dets
         else if status = 400 then
           (if opt_member errorData ''code'' = JStr ''BATCH_SIZE_EXCEEDED'' then
              new_BatchSizeError (js_or msg (JStr ''Batch size exceeds maximum limit'')) dets
            else
              new_ValidationError
                (js_or (js_or msg (JStr statusText)) (JStr ''Validation failed'')) dets)
         else if status = 408 \<or> status = 504 then
           new_TimeoutError (js_or msg (JStr ''Request timed out'')) dets
         else if status = 500 \<or> status = 502 then
           new_ServerError (js_or msg (JStr ''Internal server error'')) dets
         else if status = 503 then
           new_ServerError (js_or msg (JStr ''Service temporarily unavailable'')) dets
         else
           (let e = new_ValidKitError
                      (js_or (js_or msg (JStr statusText))
                         (JStr (''API request failed with status '' @ string_of_nat status)))
                      (Some status) dets
            in if truthy (opt_member errorData ''code'')
               then e\<lparr>code := opt_member errorData ''code''\<rparr> else e))"

text \<open>
  \<open>RateLimitError.getRetryDelay()\<close>, with \<open>Date.now()\<close> as \<open>now\<close>. The source asserts
  \<open>as number\<close> on what it multiplies; the product of a value that is not a number is
  left undetermined (\<open>None\<close>).
\<close>

definition times_1000 :: "jsval \<Rightarrow> jsnum option" where
  "times_1000 v =
     (case v of JNum (Num n) \<Rightarrow> Some (Num (n * 1000)) | JNum NaN \<Rightarrow> Some NaN | _ \<Rightarrow> None)"

definition reset_delay :: "jsval \<Rightarrow> int \<Rightarrow> jsnum option" where
  "reset_delay v now =
     (case v of JNum (Num n) \<Rightarrow> Some (Num (max 0 (n * 1000 - now)))
      | JNum NaN \<Rightarrow> Some NaN | _ \<Rightarrow> None)"

definition RateLimitError_getRetryDelay :: "error \<Rightarrow> int \<Rightarrow> jsnum option" where
  "RateLimitError_getRetryDelay e now =
     (let rateLimitInfo = opt_member (details e) ''rate_limit''
      in if truthy (opt_member rateLimitInfo ''retry_after'') then
           times_1000 (opt_member rateLimitInfo ''retry_after'')
         else if truthy (opt_member (details e) ''retry_after'') then
           times_1000 (opt_member (details e) ''retry_after'')
         else if truthy (opt_member (rateLimit e) ''retry_after'') then
           times_1000 (opt_member (rateLimit e) ''retry_after'')
         else if truthy (opt_member (rateLimit e) ''reset'') then
           reset_delay (opt_member (rateLimit e) ''reset'') now
         else Some (Num 60000))"

section \<open>The client (ValidKit)\<close>

datatype ResponseFormat = FULL | COMPACT

definition format_string :: "ResponseFormat \<Rightarrow> string" where
  "format_string f = (case f of FULL \<Rightarrow> ''full'' | COMPACT \<Rightarrow> ''compact'')"

definition DEFAULT_TIMEOUT :: nat where "DEFAULT_TIMEOUT = 30000"
definition DEFAULT_CHUNK_SIZE :: nat where "DEFAULT_CHUNK_SIZE = 1000"
definition MAX_BATCH_SIZE :: nat where "MAX_BATCH_SIZE = 10000"
definition RETRY_BASE_DELAY :: int where "RETRY_BASE_DELAY = 1000"
definition MAX_RETRY_DELAY :: int where "MAX_RETRY_DELAY = 30000"

text \<open>
  The resolved configuration \<open>this.config\<close>. \<open>max_retries\<close> and \<open>default_chunk_size\<close>
  are counts. Request headers (credential, user agent, correlation identifiers) take no part
  in the control flow and are left out.
\<close>

record config =
  base_url :: string
  timeout :: nat
  max_retries :: nat
  default_chunk_size :: nat

text \<open>
  The constructor: the caller's configuration, where every field but the credential is
  optional, and the defaults that \<open>||\<close> puts in place of an absent, empty or zero value.
\<close>

record ValidKitConfig =
  api_key :: string
  base_url_arg :: "string option"
  timeout_arg :: "nat option"
  max_retries_arg :: "nat option"
  default_chunk_size_arg :: "nat option"

definition nat_or :: "nat option \<Rightarrow> nat \<Rightarrow> nat" where
  "nat_or v d = (case v of None \<Rightarrow> d | Some n \<Rightarrow> if n = 0 then d else n)"

definition string_or :: "string option \<Rightarrow> string \<Rightarrow> string" where
  "string_or v d = (case v of None \<Rightarrow> d | Some s \<Rightarrow> if s = [] then d else s)"

definition new_ValidKit :: "ValidKitConfig \<Rightarrow> error + config" where
  "new_ValidKit c =
     (if api_key c = [] then Inl (new_InvalidAPIKeyError (JStr ''API key is required'') JUndefined)
      else Inr \<lparr>base_url = string_or (base_url_arg c) ''https://api.validkit.com'',
                timeout = nat_or (timeout_arg c) DEFAULT_TIMEOUT,
                max_retries = nat_or (max_retries_arg c) 3,
                default_chunk_size = nat_or (default_chunk_size_arg c) DEFAULT_CHUNK_SIZE\<rparr>)"

subsection \<open>The network\<close>

text \<open>
  What one \<open>fetch\<close> call yields: a rejection whose \<open>name\<close> is \<open>AbortError\<close>, any other
  rejection (with its message), or a response. \<open>response.json()\<close> either decodes the body
  or rejects (\<open>Malformed\<close>, with the rejection's message). Header names are looked up as the
  client spells them.
\<close>

datatype body = Malformed string | Json jsval

record http_response =
  status :: nat
  statusText :: string
  headers :: "string \<Rightarrow> string option"
  json :: body

datatype fetch_outcome = Aborted | Rejected string | Response http_response

definition response_ok :: "http_response \<Rightarrow> bool" where
  "response_ok r = (200 \<le> status r \<and> status r \<le> 299)"

text \<open>
  The world outside: the outcome of the \<open>n\<close>-th \<open>fetch\<close> of a run and the reading of
  \<open>Date.now()\<close> after it.
\<close>

record env =
  fetch_at :: "nat \<Rightarrow> fetch_outcome"
  now_at :: "nat \<Rightarrow> int"

text \<open>
  The request context of one \<open>fetch\<close>: target, method, the body before
  \<open>JSON.stringify\<close>, and the retry counter of the \<open>makeRequest\<close> invocation that issued it.
\<close>

record request =
  url :: string
  http_method :: string
  payload :: jsval
  attempt :: nat

text \<open>
  The observable trace of a run: the \<open>fetch\<close> calls issued, the delays slept, and the
  arguments of the progress callback's invocations.
\<close>

record trace =
  fetch_log :: "request list"
  sleeps :: "jsnum option list"
  progress :: "(nat \<times> nat) list"

subsection \<open>Rate limit headers\<close>

record RateLimitInfo =
  limit :: jsnum
  remaining :: jsnum
  reset :: jsnum
  retry_after :: "jsnum option"

text \<open>\<open>headers.get(name) || '0'\<close> and the truthiness of \<open>headers.get(name)\<close>.\<close>

definition header_or_0 :: "(string \<Rightarrow> string option) \<Rightarrow> string \<Rightarrow> string" where
  "header_or_0 h name = (case h name of None \<Rightarrow> ''0'' | Some v \<Rightarrow> if v = [] then ''0'' else v)"

definition header_truthy :: "(string \<Rightarrow> string option) \<Rightarrow> string \<Rightarrow> bool" where
  "header_truthy h name = (case h name of None \<Rightarrow> False | Some v \<Rightarrow> v \<noteq> [])"

definition extract_rate_limit :: "(string \<Rightarrow> string option) \<Rightarrow> RateLimitInfo option" where
  "extract_rate_limit h =
     (if header_truthy h ''X-RateLimit-Limit'' then
        Some \<lparr>limit = parseInt (header_or_0 h ''X-RateLimit-Limit''),
              remaining = parseInt (header_or_0 h ''X-RateLimit-Remaining''),
              reset = parseInt (header_or_0 h ''X-RateLimit-Reset''),
              retry_after = (case h ''Retry-After'' of
                               None \<Rightarrow> None
                             | Some v \<Rightarrow> if v = [] then None else Some (parseInt v))\<rparr>
      else None)"

definition RateLimitInfo_obj :: "RateLimitInfo \<Rightarrow> jsval" where
  "RateLimitInfo_obj r =
     JObj [(''limit'', JNum (limit r)), (''remaining'', JNum (remaining r)),
           (''reset'', JNum (reset r)),
           (''retry_after'', case retry_after r of None \<Rightarrow> JUndefined | Some n \<Rightarrow> JNum n)]"

definition rateLimit_val :: "RateLimitInfo option \<Rightarrow> jsval" where
  "rateLimit_val r = (case r of None \<Rightarrow> JUndefined | Some i \<Rightarrow> RateLimitInfo_obj i)"

subsection \<open>Retry policy\<close>

definition shouldRetry :: "config \<Rightarrow> error \<Rightarrow> nat \<Rightarrow> bool" where
  "shouldRetry cfg e retries =
     (if retries \<ge> max_retries cfg then False
      else if error_class e = InvalidAPIKeyError \<or> error_class e = ValidationError
              \<or> error_class e = BatchSizeError then False
      else (error_class e = RateLimitError \<or> error_class e = TimeoutError
            \<or> error_class e = ConnectionError \<or> error_class e = ServerError))"

definition getRetryDelay :: "error \<Rightarrow> nat \<Rightarrow> int \<Rightarrow> jsnum option" where
  "getRetryDelay e retries now =
     (if error_class e = RateLimitError then RateLimitError_getRetryDelay e now
      else Some (Num (min (RETRY_BASE_DELAY * 2 ^ retries) MAX_RETRY_DELAY)))"

subsection \<open>makeRequest\<close>

text \<open>The error payload of a failed response: \<open>jsonResponse.error || jsonResponse\<close>, absent
  when the body is not JSON or the read of \<open>.error\<close> throws.\<close>

definition errorData_of :: "body \<Rightarrow> jsval" where
  "errorData_of b =
     (case b of
        Malformed m \<Rightarrow> JUndefined
      | Json jsonResponse \<Rightarrow>
          (case member jsonResponse ''error'' of
             None \<Rightarrow> JUndefined
           | Some er \<Rightarrow> js_or er jsonResponse))"

text \<open>The error of a failed response, with the rate limit info merged into a rate limit
  error's details.\<close>

definition response_error :: "http_response \<Rightarrow> error" where
  "response_error response =
     (let rateLimit = extract_rate_limit (headers response);
          e = fromApiResponse (status response) (statusText response) (errorData_of (json response))
      in if error_class e = RateLimitError \<and> rateLimit \<noteq> None
         then e\<lparr>details := JObj (AList.update ''rate_limit'' (rateLimit_val rateLimit)
                                    (own_entries (details e)))\<rparr>
         else e)"

definition issue :: "config \<Rightarrow> string \<Rightarrow> string \<Rightarrow> jsval \<Rightarrow> nat \<Rightarrow> trace \<Rightarrow> trace" where
  "issue cfg endpoint meth bdy retries st =
     st\<lparr>fetch_log := fetch_log st @
          [\<lparr>url = base_url cfg @ endpoint, http_method = meth, payload = bdy, attempt = retries\<rparr>]\<rparr>"

definition sleep :: "jsnum option \<Rightarrow> trace \<Rightarrow> trace" where
  "sleep ms st = st\<lparr>sleeps := sleeps st @ [ms]\<rparr>"

function makeRequest ::
  "config \<Rightarrow> env \<Rightarrow> string \<Rightarrow> string \<Rightarrow> jsval \<Rightarrow> nat \<Rightarrow> trace
     \<Rightarrow> (error + jsval \<times> RateLimitInfo option) \<times> trace" where
  "makeRequest cfg world endpoint meth bdy retries st =
     (let n = length (fetch_log st);
          st1 = issue cfg endpoint meth bdy retries st
      in case fetch_at world n of
           Response response \<Rightarrow>
             if \<not> response_ok response then
               (let e = response_error response
                in if shouldRetry cfg e retries then
                     makeRequest cfg world endpoint meth bdy (retries + 1)
                       (sleep (getRetryDelay e retries (now_at world n)) st1)
                   else (Inl e, st1))
             else
               (case json response of
                  Json data \<Rightarrow> (Inr (data, extract_rate_limit (headers response)), st1)
                | Malformed m \<Rightarrow>
                    (let connectionError =
                           new_ConnectionError (JStr (''Request failed: '' @ m)) JUndefined
                     in if shouldRetry cfg connectionError retries then
                          makeRequest cfg world endpoint meth bdy (retries + 1)
                            (sleep (getRetryDelay connectionError retries (now_at world n)) st1)
                        else (Inl connectionError, st1)))
         | Aborted \<Rightarrow>
             (let timeoutError =
                    new_TimeoutError
                      (JStr (''Request timed out after '' @ string_of_nat (timeout cfg) @ ''ms''))
                      JUndefined
              in if shouldRetry cfg timeoutError retries then
                   makeRequest cfg world endpoint meth bdy (retries + 1)
                     (sleep (getRetryDelay timeoutError retries (now_at world n)) st1)
                 else (Inl timeoutError, st1))
         | Rejected m \<Rightarrow>
             (let connectionError =
                    new_ConnectionError (JStr (''Request failed: '' @ m)) JUndefined
              in if shouldRetry cfg connectionError retries then
                   makeRequest cfg world endpoint meth bdy (retries + 1)
                     (sleep (getRetryDelay connectionError retries (now_at world n)) st1)
                 else (Inl connectionError, st1)))"
  by pat_completeness auto
termination
  by (relation "measure (\<lambda>(cfg, world, endpoint, meth, bdy, retries, st). max_retries cfg - retries)")
     (auto simp: shouldRetry_def split: if_splits)

declare makeRequest.simps [simp del]

text \<open>
  The typed error of one attempt, if it fails: what the three failure branches of
  \<open>makeRequest\<close> construct before they consult the retry policy.
\<close>

definition attempt_error :: "config \<Rightarrow> fetch_outcome \<Rightarrow> error option" where
  "attempt_error cfg outcome =
     (case outcome of
        Response response \<Rightarrow>
          if \<not> response_ok response then Some (response_error response)
          else (case json response of
                  Json data \<Rightarrow> None
                | Malformed m \<Rightarrow>
                    Some (new_ConnectionError (JStr (''Request failed: '' @ m)) JUndefined))
      | Aborted \<Rightarrow>
          Some (new_TimeoutError
                  (JStr (''Request timed out after '' @ string_of_nat (timeout cfg) @ ''ms''))
                  JUndefined)
      | Rejected m \<Rightarrow> Some (new_ConnectionError (JStr (''Request failed: '' @ m)) JUndefined))"

text \<open>What a successful attempt returns: the decoded body and the rate limit info.\<close>

definition attempt_data :: "fetch_outcome \<Rightarrow> jsval \<times> RateLimitInfo option" where
  "attempt_data outcome =
     (case outcome of
        Response response \<Rightarrow>
          (case json response of
             Json data \<Rightarrow> (data, extract_rate_limit (headers response))
           | Malformed m \<Rightarrow> (JUndefined, None))
      | _ \<Rightarrow> (JUndefined, None))"

subsection \<open>Operations\<close>

text \<open>
  An operation fails with a typed error or with a runtime \<open>TypeError\<close> (a property read on
  \<open>null\<close>, \<open>in\<close> applied to a value that is not an object), which no handler of the client
  catches.
\<close>

datatype failure = Typed error | TypeError

definition share_signals_entry :: "bool option \<Rightarrow> (string \<times> jsval) list" where
  "share_signals_entry s = (case s of None \<Rightarrow> [] | Some b \<Rightarrow> [(''share_signals'', JBool b)])"



text \<open>
  \<open>processBatchChunk\<close>, after the request. The indexed shape: each submitted position whose
  entry is truthy is stored under the email of that position.
\<close>

definition index_step ::
  "jsval \<Rightarrow> nat \<times> string \<Rightarrow> (string \<times> jsval) list \<Rightarrow> (string \<times> jsval) list" where
  "index_step apiResponse =
     (\<lambda>(index, email) emailResults.
        if truthy (get_prop apiResponse (string_of_nat index))
        then AList.update email (get_prop apiResponse (string_of_nat index)) emailResults
        else emailResults)"

definition indexed_results :: "string list \<Rightarrow> jsval \<Rightarrow> (string \<times> jsval) list" where
  "indexed_results emails apiResponse =
     fold (index_step apiResponse) (zip [0..<length emails] emails) []"

text \<open>The enveloped list: one step of \<open>apiResponse.results.forEach\<close>.\<close>

definition envelope_step ::
  "ResponseFormat \<Rightarrow> jsval \<Rightarrow> jsval \<Rightarrow> (string \<times> jsval) list
     \<Rightarrow> failure + (string \<times> jsval) list" where
  "envelope_step format apiResponse result emailResults =
     (case member result ''email'' of
        None \<Rightarrow> Inl TypeError
      | Some em \<Rightarrow>
          if truthy em \<and> truthy (get_prop result ''result'') then
            (let r = get_prop result ''result''
             in if format = COMPACT then
                  Inr (AList.update (js_toString em)
                    (JObj ([(''v'', get_prop r ''valid'')]
                       @ spread_if (opt_member (get_prop r ''disposable'') ''value'')
                           [(''d'', JBool True)]
                       @ spread_if (get_prop apiResponse ''trace_id'')
                           [(''trace_id'', get_prop apiResponse ''trace_id'')]))
                    emailResults)
                else
                  Inr (AList.update (js_toString em)
                    (JObj [(''success'', get_prop result ''success''),
                           (''email'', em),
                           (''valid'', get_prop r ''valid''),
                           (''format'', get_prop r ''format''),
                           (''disposable'', get_prop r ''disposable''),
                           (''mx'', get_prop r ''mx''),
                           (''smtp'', get_prop r ''smtp''),
                           (''trace_id'', get_prop apiResponse ''trace_id''),
                           (''request_id'', get_prop apiResponse ''request_id'')])
                    emailResults))
          else Inr emailResults)"

fun envelope_results ::
  "ResponseFormat \<Rightarrow> jsval \<Rightarrow> jsval list \<Rightarrow> (string \<times> jsval) list
     \<Rightarrow> failure + (string \<times> jsval) list" where
  "envelope_results format apiResponse [] emailResults = Inr emailResults"
| "envelope_results format apiResponse (result # rest) emailResults =
     (case envelope_step format apiResponse result emailResults of
        Inl f \<Rightarrow> Inl f
      | Inr emailResults' \<Rightarrow> envelope_results format apiResponse rest emailResults')"

definition processBatchChunk_result ::
  "string list \<Rightarrow> ResponseFormat \<Rightarrow> jsval \<Rightarrow> failure + jsval" where
  "processBatchChunk_result emails format apiResponse =
     (if format = COMPACT \<and> typeof_object apiResponse \<and> js_in ''results'' apiResponse = None then
        Inl TypeError
      else if format = COMPACT \<and> typeof_object apiResponse
              \<and> js_in ''results'' apiResponse = Some False then
        Inr (JObj (indexed_results emails apiResponse))
      else
        (case js_in ''results'' apiResponse of
           None \<Rightarrow> Inl TypeError
         | Some has_results \<Rightarrow>
             if has_results \<and> isArray (get_prop apiResponse ''results'') then
               (case envelope_results format apiResponse
                       (array_items (get_prop apiResponse ''results'')) [] of
                  Inl f \<Rightarrow> Inl f
                | Inr emailResults \<Rightarrow> Inr (JObj emailResults))
             else Inr apiResponse))"

text \<open>The body \<open>{emails, format, debug, share_signals?}\<close> of a bulk request.\<close>

definition bulk_body :: "string list \<Rightarrow> ResponseFormat \<Rightarrow> bool \<Rightarrow> bool option \<Rightarrow> jsval" where
  "bulk_body emails format debug share_signals =
     JObj ([(''emails'', JArr (map JStr emails)), (''format'', JStr (format_string format)),
            (''debug'', JBool debug)] @ share_signals_entry share_signals)"

definition processBatchChunk ::
  "config \<Rightarrow> env \<Rightarrow> string list \<Rightarrow> ResponseFormat \<Rightarrow> bool \<Rightarrow> bool option \<Rightarrow> trace
     \<Rightarrow> (failure + jsval) \<times> trace" where
  "processBatchChunk cfg world emails format debug share_signals st =
     (case makeRequest cfg world ''/api/v1/verify/bulk'' ''POST''
             (bulk_body emails format debug share_signals) 0 st of
        (Inl e, st') \<Rightarrow> (Inl (Typed e), st')
      | (Inr (data, rl), st') \<Rightarrow> (processBatchChunk_result emails format data, st'))"

text \<open>
  \<open>chunkArray\<close>: the loop \<open>for (i = 0; i < array.length; i += chunkSize)\<close>, which does not
  end when \<open>chunkSize\<close> is \<open>0\<close> and the array is not empty.
\<close>

definition slice :: "'a list \<Rightarrow> nat \<Rightarrow> nat \<Rightarrow> 'a list" where
  "slice array i j = take (j - i) (drop i array)"

partial_function (option) chunkArray_from ::
  "'a list \<Rightarrow> nat \<Rightarrow> nat \<Rightarrow> 'a list list \<Rightarrow> 'a list list option" where
  "chunkArray_from array chunkSize i chunks =
     (if i < length array
      then chunkArray_from array chunkSize (i + chunkSize)
             (chunks @ [slice array i (i + chunkSize)])
      else Some chunks)"

definition chunkArray :: "'a list \<Rightarrow> nat \<Rightarrow> 'a list list option" where
  "chunkArray array chunkSize = chunkArray_from array chunkSize 0 []"

text \<open>\<open>Object.assign(results, chunkResults)\<close>.\<close>

definition object_assign :: "(string \<times> jsval) list \<Rightarrow> jsval \<Rightarrow> (string \<times> jsval) list" where
  "object_assign target source = fold (\<lambda>(k, v). AList.update k v) (own_entries source) target"

text \<open>
  The options of \<open>verifyBatch\<close>; \<open>progress_callback\<close> tells whether the caller supplied
  one, and its invocations are recorded in the trace.
\<close>

record VerifyBatchOptions =
  format :: "ResponseFormat option"
  chunk_size :: "nat option"
  progress_callback :: bool
  debug :: "bool option"
  share_signals :: "bool option"

text \<open>The defaults of the destructured options.\<close>

definition batch_format :: "VerifyBatchOptions \<Rightarrow> ResponseFormat" where
  "batch_format options = (case format options of None \<Rightarrow> COMPACT | Some f \<Rightarrow> f)"

definition batch_chunk_size :: "config \<Rightarrow> VerifyBatchOptions \<Rightarrow> nat" where
  "batch_chunk_size cfg options =
     (case chunk_size options of None \<Rightarrow> default_chunk_size cfg | Some c \<Rightarrow> c)"

definition batch_debug :: "VerifyBatchOptions \<Rightarrow> bool" where
  "batch_debug options = (case debug options of None \<Rightarrow> False | Some d \<Rightarrow> d)"

text \<open>The loop \<open>for (const chunk of chunks)\<close> of \<open>verifyBatch\<close>.\<close>

fun verifyBatch_chunks ::
  "config \<Rightarrow> env \<Rightarrow> ResponseFormat \<Rightarrow> bool \<Rightarrow> bool option \<Rightarrow> bool \<Rightarrow> nat
     \<Rightarrow> string list list \<Rightarrow> (string \<times> jsval) list \<Rightarrow> nat \<Rightarrow> trace
     \<Rightarrow> (failure + jsval) \<times> trace" where
  "verifyBatch_chunks cfg world fmt dbg share callback ntotal [] results processed st =
     (Inr (JObj results), st)"
| "verifyBatch_chunks cfg world fmt dbg share callback ntotal (chunk # chunks) results processed st =
     (case processBatchChunk cfg world chunk fmt dbg share st of
        (Inl f, st1) \<Rightarrow> (Inl f, st1)
      | (Inr chunkResults, st1) \<Rightarrow>
          (let results' = object_assign results chunkResults;
               processed' = processed + length chunk;
               st2 = (if callback
                      then st1\<lparr>progress := progress st1 @ [(processed', ntotal)]\<rparr> else st1)
           in verifyBatch_chunks cfg world fmt dbg share callback ntotal chunks results'
                processed' st2))"

text \<open>
  \<open>verifyBatch(emails, options)\<close>; \<open>emails\<close> is \<open>None\<close> when the caller passes something
  that is not an array. The result is \<open>None\<close> when the call does not return.
\<close>

definition verifyBatch ::
  "config \<Rightarrow> env \<Rightarrow> string list option \<Rightarrow> VerifyBatchOptions \<Rightarrow> trace
     \<Rightarrow> ((failure + jsval) \<times> trace) option" where
  "verifyBatch cfg world emails_arg options st =
     (case emails_arg of
        None \<Rightarrow>
          Some (Inl (Typed (new_ValidationError (JStr ''Emails must be a non-empty array'')
                              JUndefined)), st)
      | Some emails \<Rightarrow>
          if length emails = 0 then
            Some (Inl (Typed (new_ValidationError (JStr ''Emails must be a non-empty array'')
                                JUndefined)), st)
          else if length emails > MAX_BATCH_SIZE then
            Some (Inl (Typed (new_BatchSizeError
                     (JStr (''Batch size cannot exceed '' @ string_of_nat MAX_BATCH_SIZE
                            @ '' emails. Use verifyBatchAsync for larger batches.''))
                     JUndefined)), st)
          else
            (let fmt = batch_format options;
                 csize = batch_chunk_size cfg options;
                 dbg = batch_debug options
             in if length emails \<le> csize then
                  Some (processBatchChunk cfg world emails fmt dbg (share_signals options) st)
                else
                  (case chunkArray emails csize of
                     None \<Rightarrow> None
                   | Some chunks \<Rightarrow>
                       Some (verifyBatch_chunks cfg world fmt dbg (share_signals options)
                               (progress_callback options) (length emails) chunks [] 0 st))))"

section \<open>Notions used in the properties\<close>

text \<open>
  The first attempts in a trace are the logical calls of the executor; the later attempts
  of a call are its retries.
\<close>

definition first_attempts :: "request list \<Rightarrow> request list" where
  "first_attempts rs = filter (\<lambda>r. attempt r = 0) rs"

text \<open>The cumulative counts \<open>processed\<close> takes in the loop over the chunks.\<close>

fun running :: "nat \<Rightarrow> 'a list list \<Rightarrow> nat list" where
  "running processed [] = []"
| "running processed (chunk # chunks) =
     (processed + length chunk) # running (processed + length chunk) chunks"



section \<open>Sample responses and errors\<close>

text \<open>
  A 429 response whose payload carries an explicit \<open>retry_after\<close> of 5 seconds in its
  detail map, while the \<open>Retry-After\<close> header says 7.
\<close>

definition example_429 :: http_response where
  "example_429 =
     \<lparr>status = 429, statusText = ''Too Many Requests'',
      headers = map_of [(''X-RateLimit-Limit'', ''100''), (''Retry-After'', ''7'')],
      json = Json (JObj [(''error'', JObj [(''message'', JStr ''Rate limited''),
                (''details'', JObj [(''retry_after'', JNum (Num 5))])])])\<rparr>"

text \<open>
  A 429 response whose payload carries its own rate limit info (retry after 9 seconds),
  with rate limit headers and no \<open>Retry-After\<close> header.
\<close>

definition example_429_payload_info :: http_response where
  "example_429_payload_info =
     \<lparr>status = 429, statusText = ''Too Many Requests'',
      headers = map_of [(''X-RateLimit-Limit'', ''100'')],
      json = Json (JObj [(''details'', JObj [(''rate_limit'',
                JObj [(''retry_after'', JNum (Num 9))])])])\<rparr>"





definition example_config :: config where
  "example_config = \<lparr>base_url = ''https://api.validkit.com'', timeout = 30000, max_retries = 3,
     default_chunk_size = 1000\<rparr>"

definition ok_response :: "jsval \<Rightarrow> fetch_outcome" where
  "ok_response b = Response \<lparr>status = 200, statusText = ''OK'', headers = map_of [], json = Json b\<rparr>"

definition empty_trace :: trace where
  "empty_trace = \<lparr>fetch_log = [], sleeps = [], progress = []\<rparr>"

definition always :: "fetch_outcome \<Rightarrow> env" where
  "always r = \<lparr>fetch_at = (\<lambda>n. r), now_at = (\<lambda>n. 0)\<rparr>"


text \<open>A 401 response, and a 200 response whose body is an HTML page.\<close>

definition example_401 :: http_response where
  "example_401 = \<lparr>status = 401, statusText = ''Unauthorized'', headers = map_of [],
     json = Json (JObj [(''message'', JStr ''Invalid API key'')])\<rparr>"

definition example_malformed :: http_response where
  "example_malformed = \<lparr>status = 200, statusText = ''OK'', headers = map_of [],
     json = Malformed ''Unexpected token < in JSON at position 0''\<rparr>"

text \<open>A bulk body in the indexed shape, and the options of a batch call.\<close>

definition example_indexed_body :: jsval where
  "example_indexed_body =
     JObj [(''0'', JObj [(''v'', JBool True)]),
           (''1'', JObj [(''v'', JBool False), (''r'', JStr ''invalid format'')])]"

definition example_options :: "ResponseFormat \<Rightarrow> VerifyBatchOptions" where
  "example_options f = \<lparr>format = Some f, chunk_size = None, progress_callback = True,
     debug = None, share_signals = None\<rparr>"

text \<open>Five emails to be verified in chunks of two.\<close>

definition example_emails :: "string list" where
  "example_emails = [''a@example.com'', ''b@example.com'', ''c@example.com'', ''d@example.com'',
     ''e@example.com'']"

definition example_chunked_options :: VerifyBatchOptions where
  "example_chunked_options = \<lparr>format = None, chunk_size = Some 2, progress_callback = True,
     debug = None, share_signals = None\<rparr>"


text \<open>A 503 response, and a network that answers once in one way and then always in another.\<close>

definition example_503 :: http_response where
  "example_503 = \<lparr>status = 503, statusText = ''Service Unavailable'', headers = map_of [],
     json = Json (JObj [(''message'', JStr ''Service unavailable'')])\<rparr>"

definition then_always :: "fetch_outcome \<Rightarrow> fetch_outcome \<Rightarrow> env" where
  "then_always r r' = \<lparr>fetch_at = (\<lambda>n. if n = 0 then r else r'), now_at = (\<lambda>n. 0)\<rparr>"

section \<open>Properties of the error factory\<close>

lemmas new_error_defs = new_ValidKitError_def new_InvalidAPIKeyError_def new_RateLimitError_def
  new_BatchSizeError_def new_TimeoutError_def new_ConnectionError_def new_ServerError_def
  new_ValidationError_def

lemma fromApiResponse_class:
  "error_class (fromApiResponse sc phrase errorData) =
     (if sc = 401 then InvalidAPIKeyError
      else if sc = 429 then RateLimitError
      else if sc = 400 then
        (if opt_member errorData ''code'' = JStr ''BATCH_SIZE_EXCEEDED''
         then BatchSizeError else ValidationError)
      else if sc = 408 \<or> sc = 504 then TimeoutError
      else if sc = 500 \<or> sc = 502 \<or> sc = 503 then ServerError
      else ValidKitError)"
  by (simp add: fromApiResponse_def Let_def new_error_defs)

lemma fromApiResponse_generic:
  assumes "sc \<notin> {401, 429, 400, 408, 504, 500, 502, 503}"
  shows "statusCode (fromApiResponse sc phrase errorData) = Some sc"
    and "message (fromApiResponse sc phrase errorData) =
          (if truthy (opt_member errorData ''message'')
           then js_toString (opt_member errorData ''message'')
           else if phrase \<noteq> [] then phrase
           else ''API request failed with status '' @ string_of_nat sc)"
  using assms by (simp_all add: fromApiResponse_def Let_def new_error_defs js_or_def)

lemma string_of_nat_418: "string_of_nat 418 = ''418''"
  by (simp add: string_of_nat.simps digit_char_def)

text \<open>
  C3. The factory is a total function of the status, the reason phrase and the optional
  payload, so it yields exactly one typed error. Its class follows the precedence 401,
  429, 400 (batch-too-large when the payload's code is \<open>BATCH_SIZE_EXCEEDED\<close>, validation
  otherwise), 408 or 504, 500 or 502 or 503, and the base class for any other status; in
  that last case the error keeps the status, and its message is the payload's message when
  there is one, else the reason phrase when it is not empty, else
  \<open>API request failed with status N\<close>.
\<close>

theorem fromApiResponse_category:
  "error_class (fromApiResponse sc phrase errorData) =
     (if sc = 401 then InvalidAPIKeyError
      else if sc = 429 then RateLimitError
      else if sc = 400 then
        (if opt_member errorData ''code'' = JStr ''BATCH_SIZE_EXCEEDED''
         then BatchSizeError else ValidationError)
      else if sc = 408 \<or> sc = 504 then TimeoutError
      else if sc = 500 \<or> sc = 502 \<or> sc = 503 then ServerError
      else ValidKitError)
   \<and> (sc \<notin> {401, 429, 400, 408, 504, 500, 502, 503} \<longrightarrow>
        statusCode (fromApiResponse sc phrase errorData) = Some sc
        \<and> message (fromApiResponse sc phrase errorData) =
            (if truthy (opt_member errorData ''message'')
             then js_toString (opt_member errorData ''message'')
             else if phrase \<noteq> [] then phrase
             else ''API request failed with status '' @ string_of_nat sc))"
  using fromApiResponse_class fromApiResponse_generic by simp

theorem fromApiResponse_category_witness:
  "error_class (fromApiResponse 418 ''Teapot'' JUndefined) = ValidKitError
   \<and> statusCode (fromApiResponse 418 ''Teapot'' JUndefined) = Some 418
   \<and> message (fromApiResponse 418 ''Teapot'' JUndefined) = ''Teapot''
   \<and> message (fromApiResponse 418 [] JUndefined) = ''API request failed with status 418''
   \<and> message (fromApiResponse 418 [] (JObj [(''message'', JStr ''no tea'')])) = ''no tea''"
  using fromApiResponse_category [of 418 "''Teapot''" JUndefined]
    fromApiResponse_category [of 418 "[]" JUndefined]
    fromApiResponse_category [of 418 "[]" "JObj [(''message'', JStr ''no tea'')]"]
  by (simp add: opt_member_def string_of_nat_418)

section \<open>Properties of the retry delay\<close>

lemma parseInt_100: "parseInt ''100'' = Num 100"
  by (simp add: parseInt_def has_hex_prefix_def is_space_def digit_val_def)

lemma parseInt_7: "parseInt ''7'' = Num 7"
  by (simp add: parseInt_def has_hex_prefix_def is_space_def digit_val_def)

lemma parseInt_0: "parseInt ''0'' = Num 0"
  by (simp add: parseInt_def has_hex_prefix_def is_space_def digit_val_def)

lemma example_429_error:
  "response_error example_429 =
     \<lparr>error_class = RateLimitError, message = ''Rate limited'', code = JStr ''RATE_LIMIT_EXCEEDED'',
      statusCode = Some 429,
      details = JObj [(''retry_after'', JNum (Num 5)),
                 (''rate_limit'', JObj [(''limit'', JNum (Num 100)), (''remaining'', JNum (Num 0)),
                    (''reset'', JNum (Num 0)), (''retry_after'', JNum (Num 7))])],
      rateLimit = JUndefined\<rparr>"
  by (simp add: response_error_def example_429_def extract_rate_limit_def header_truthy_def
      header_or_0_def parseInt_100 parseInt_7 parseInt_0 fromApiResponse_def errorData_of_def
      member_def opt_member_def js_or_def new_RateLimitError_def rateLimit_val_def
      RateLimitInfo_obj_def Let_def)

lemma example_429_payload_info_error:
  "response_error example_429_payload_info =
     \<lparr>error_class = RateLimitError, message = ''Rate limit exceeded'',
      code = JStr ''RATE_LIMIT_EXCEEDED'', statusCode = Some 429,
      details = JObj [(''rate_limit'', JObj [(''limit'', JNum (Num 100)),
                    (''remaining'', JNum (Num 0)), (''reset'', JNum (Num 0)),
                    (''retry_after'', JUndefined)])],
      rateLimit = JObj [(''retry_after'', JNum (Num 9))]\<rparr>"
  by (simp add: response_error_def example_429_payload_info_def extract_rate_limit_def
      header_truthy_def header_or_0_def parseInt_100 parseInt_0 fromApiResponse_def
      errorData_of_def member_def opt_member_def js_or_def new_RateLimitError_def
      rateLimit_val_def RateLimitInfo_obj_def Let_def)

lemma rate_limit_delay_cases:
  assumes "error_class e = RateLimitError"
  shows "opt_member (opt_member (details e) ''rate_limit'') ''retry_after'' = JNum (Num a) \<and> a \<noteq> 0
           \<longrightarrow> getRetryDelay e k now = Some (Num (a * 1000))"
    and "\<not> truthy (opt_member (opt_member (details e) ''rate_limit'') ''retry_after'')
         \<and> opt_member (details e) ''retry_after'' = JNum (Num b) \<and> b \<noteq> 0
           \<longrightarrow> getRetryDelay e k now = Some (Num (b * 1000))"
    and "\<not> truthy (opt_member (opt_member (details e) ''rate_limit'') ''retry_after'')
         \<and> \<not> truthy (opt_member (details e) ''retry_after'')
         \<and> opt_member (rateLimit e) ''retry_after'' = JNum (Num c) \<and> c \<noteq> 0
           \<longrightarrow> getRetryDelay e k now = Some (Num (c * 1000))"
    and "\<not> truthy (opt_member (opt_member (details e) ''rate_limit'') ''retry_after'')
         \<and> \<not> truthy (opt_member (details e) ''retry_after'')
         \<and> \<not> truthy (opt_member (rateLimit e) ''retry_after'')
         \<and> opt_member (rateLimit e) ''reset'' = JNum (Num r) \<and> r \<noteq> 0
           \<longrightarrow> getRetryDelay e k now = Some (Num (max 0 (r * 1000 - now)))"
    and "\<not> truthy (opt_member (opt_member (details e) ''rate_limit'') ''retry_after'')
         \<and> \<not> truthy (opt_member (details e) ''retry_after'')
         \<and> \<not> truthy (opt_member (rateLimit e) ''retry_after'')
         \<and> \<not> truthy (opt_member (rateLimit e) ''reset'')
           \<longrightarrow> getRetryDelay e k now = Some (Num 60000)"
  using assms
  by (simp_all add: getRetryDelay_def RateLimitError_getRetryDelay_def Let_def times_1000_def
      reset_delay_def)

lemma backoff_delay:
  assumes "error_class e \<noteq> RateLimitError"
  shows "getRetryDelay e k now = Some (Num (min (1000 * 2 ^ k) 30000))"
  using assms by (simp add: getRetryDelay_def RETRY_BASE_DELAY_def MAX_RETRY_DELAY_def)

lemma backoff_capped: "5 \<le> k \<Longrightarrow> min (1000 * 2 ^ k) 30000 = (30000::int)"
proof -
  assume "5 \<le> k"
  then have "(2::int) ^ 5 \<le> 2 ^ k" by (intro power_increasing) auto
  then show ?thesis by simp
qed

lemma backoff_sequence:
  "map (\<lambda>k. min (1000 * 2 ^ k) (30000::int)) [0..<7]
     = [1000, 2000, 4000, 8000, 16000, 30000, 30000]"
  by (simp add: upt_rec)

text \<open>
  C2, as stated, fails. The sample 429 response carries an explicit \<open>retry_after\<close> of 5
  seconds in the detail map of its payload and a \<open>Retry-After\<close> header of 7 seconds; the
  client merges the header's rate limit info into the details, and the delay is 7000 ms, not
  the 5000 ms that the explicit value would give if it came first.
\<close>

theorem retry_delay_precedence_counterexample:
  "error_class (response_error example_429) = RateLimitError
   \<and> opt_member (details (response_error example_429)) ''retry_after'' = JNum (Num 5)
   \<and> getRetryDelay (response_error example_429) 0 0 = Some (Num 7000)
   \<and> getRetryDelay (response_error example_429) 0 0 \<noteq> Some (Num 5000)"
  by (simp add: example_429_error getRetryDelay_def RateLimitError_getRetryDelay_def
      opt_member_def times_1000_def Let_def)

text \<open>
  C2, amended. For a rate limit error the delay is the first applicable (truthy: a number
  other than 0) of: the \<open>retry_after\<close> of the rate limit info under \<open>rate_limit\<close> in the
  detail map, times 1000; the \<open>retry_after\<close> of the detail map itself, times 1000; the
  \<open>retry_after\<close> of the rate limit info the error took from its payload at construction,
  times 1000; \<open>max(0, reset * 1000 - now)\<close> for the \<open>reset\<close> of that same info; and 60000
  otherwise. For a timeout, connection or server error at retry counter \<open>k\<close> it is
  \<open>min(1000 * 2^k, 30000)\<close>: 1000, 2000, 4000, 8000, 16000, then 30000 for good, never
  more than 30000.
\<close>

theorem getRetryDelay_precedence:
  "(error_class e = RateLimitError \<longrightarrow>
      (opt_member (opt_member (details e) ''rate_limit'') ''retry_after'' = JNum (Num a) \<and> a \<noteq> 0
         \<longrightarrow> getRetryDelay e k now = Some (Num (a * 1000)))
    \<and> (\<not> truthy (opt_member (opt_member (details e) ''rate_limit'') ''retry_after'')
       \<and> opt_member (details e) ''retry_after'' = JNum (Num b) \<and> b \<noteq> 0
         \<longrightarrow> getRetryDelay e k now = Some (Num (b * 1000)))
    \<and> (\<not> truthy (opt_member (opt_member (details e) ''rate_limit'') ''retry_after'')
       \<and> \<not> truthy (opt_member (details e) ''retry_after'')
       \<and> opt_member (rateLimit e) ''retry_after'' = JNum (Num c) \<and> c \<noteq> 0
         \<longrightarrow> getRetryDelay e k now = Some (Num (c * 1000)))
    \<and> (\<not> truthy (opt_member (opt_member (details e) ''rate_limit'') ''retry_after'')
       \<and> \<not> truthy (opt_member (details e) ''retry_after'')
       \<and> \<not> truthy (opt_member (rateLimit e) ''retry_after'')
       \<and> opt_member (rateLimit e) ''reset'' = JNum (Num r) \<and> r \<noteq> 0
         \<longrightarrow> getRetryDelay e k now = Some (Num (max 0 (r * 1000 - now))))
    \<and> (\<not> truthy (opt_member (opt_member (details e) ''rate_limit'') ''retry_after'')
       \<and> \<not> truthy (opt_member (details e) ''retry_after'')
       \<and> \<not> truthy (opt_member (rateLimit e) ''retry_after'')
       \<and> \<not> truthy (opt_member (rateLimit e) ''reset'')
         \<longrightarrow> getRetryDelay e k now = Some (Num 60000)))
   \<and> (error_class e = TimeoutError \<or> error_class e = ConnectionError
        \<or> error_class e = ServerError \<longrightarrow>
        getRetryDelay e k now = Some (Num (min (1000 * 2 ^ k) 30000))
      \<and> min (1000 * 2 ^ k) 30000 \<le> (30000::int)
      \<and> (5 \<le> k \<longrightarrow> getRetryDelay e k now = Some (Num 30000))
      \<and> map (\<lambda>j. getRetryDelay e j now) [0..<7] =
          map (\<lambda>d. Some (Num d)) [1000, 2000, 4000, 8000, 16000, 30000, 30000])"
proof -
  have backoff: "getRetryDelay e j now = Some (Num (min (1000 * 2 ^ j) 30000))"
    if "error_class e = TimeoutError \<or> error_class e = ConnectionError
        \<or> error_class e = ServerError" for j
    using that by (intro backoff_delay) auto
  have seq: "map (\<lambda>j. getRetryDelay e j now) [0..<7] =
          map (\<lambda>d. Some (Num d)) [1000, 2000, 4000, 8000, 16000, 30000, 30000]"
    if "error_class e = TimeoutError \<or> error_class e = ConnectionError
        \<or> error_class e = ServerError"
  proof -
    have "map (\<lambda>j. getRetryDelay e j now) [0..<7] =
            map (\<lambda>d. Some (Num d)) (map (\<lambda>k. min (1000 * 2 ^ k) (30000::int)) [0..<7])"
      using backoff [OF that] by simp
    then show ?thesis by (simp only: backoff_sequence)
  qed
  show ?thesis
    using rate_limit_delay_cases [where e = e and k = k and now = now] backoff seq
      backoff_capped [of k]
    by simp
qed

theorem getRetryDelay_precedence_witness:
  "getRetryDelay (response_error example_429) 0 0 = Some (Num 7000)
   \<and> getRetryDelay (new_RateLimitError (JStr ''Rate limit exceeded'')
        (JObj [(''retry_after'', JNum (Num 30))])) 0 0 = Some (Num 30000)
   \<and> getRetryDelay (response_error example_429_payload_info) 0 0 = Some (Num 9000)
   \<and> getRetryDelay (new_RateLimitError (JStr ''Rate limit exceeded'')
        (JObj [(''rate_limit'', JObj [(''reset'', JNum (Num 100))])])) 0 90000 = Some (Num 10000)
   \<and> getRetryDelay (new_RateLimitError (JStr ''Rate limit exceeded'') JUndefined) 0 0
       = Some (Num 60000)
   \<and> getRetryDelay (new_TimeoutError (JStr ''Request timed out'') JUndefined) 3 0
       = Some (Num 8000)
   \<and> getRetryDelay (new_TimeoutError (JStr ''Request timed out'') JUndefined) 9 0
       = Some (Num 30000)"
  using getRetryDelay_precedence [where e = "response_error example_429" and a = 7
        and k = 0 and now = 0]
    getRetryDelay_precedence [where e = "new_RateLimitError (JStr ''Rate limit exceeded'')
        (JObj [(''retry_after'', JNum (Num 30))])" and b = 30 and k = 0 and now = 0]
    getRetryDelay_precedence [where e = "response_error example_429_payload_info" and c = 9
        and k = 0 and now = 0]
    getRetryDelay_precedence [where e = "new_RateLimitError (JStr ''Rate limit exceeded'')
        (JObj [(''rate_limit'', JObj [(''reset'', JNum (Num 100))])])" and r = 100
        and k = 0 and now = 90000]
    getRetryDelay_precedence [where e = "new_RateLimitError (JStr ''Rate limit exceeded'')
        JUndefined" and k = 0 and now = 0]
    getRetryDelay_precedence [where e = "new_TimeoutError (JStr ''Request timed out'')
        JUndefined" and k = 3 and now = 0]
    getRetryDelay_precedence [where e = "new_TimeoutError (JStr ''Request timed out'')
        JUndefined" and k = 9 and now = 0]
  by (simp add: example_429_error example_429_payload_info_error new_RateLimitError_def
      new_TimeoutError_def opt_member_def)

section \<open>Properties of the rate limit headers\<close>























section \<open>Properties of single verification\<close>



lemma makeRequest_ok:
  assumes "fetch_at world (length (fetch_log st)) = ok_response b"
  shows "makeRequest cfg world endpoint meth bdy retries st =
           (Inr (b, None), issue cfg endpoint meth bdy retries st)"
  using assms
  by (subst makeRequest.simps)
     (simp add: ok_response_def response_ok_def extract_rate_limit_def header_truthy_def Let_def)




section \<open>Properties of the request executor\<close>

text \<open>
  The client of the test suite is the one the constructor builds from a credential alone;
  a caller who asks for no retries at all gets the default of 3.
\<close>

lemma new_ValidKit_default:
  "new_ValidKit \<lparr>api_key = ''test_api_key'', base_url_arg = None, timeout_arg = None,
      max_retries_arg = None, default_chunk_size_arg = None\<rparr> = Inr example_config"
  by (simp add: new_ValidKit_def nat_or_def string_or_def example_config_def DEFAULT_TIMEOUT_def
      DEFAULT_CHUNK_SIZE_def)

lemma new_ValidKit_zero_retries:
  "new_ValidKit (c\<lparr>max_retries_arg := Some 0\<rparr>) = Inr cfg \<Longrightarrow> max_retries cfg = 3"
  by (auto simp: new_ValidKit_def nat_or_def split: if_splits)

lemma shouldRetry_iff:
  "shouldRetry cfg e k \<longleftrightarrow>
     k < max_retries cfg \<and> error_class e \<in> {RateLimitError, TimeoutError, ConnectionError, ServerError}"
  by (auto simp: shouldRetry_def)

lemma makeRequest_step:
  "makeRequest cfg world endpoint meth bdy k st =
     (case attempt_error cfg (fetch_at world (length (fetch_log st))) of
        None \<Rightarrow> (Inr (attempt_data (fetch_at world (length (fetch_log st)))),
                  issue cfg endpoint meth bdy k st)
      | Some e \<Rightarrow>
          if shouldRetry cfg e k then
            makeRequest cfg world endpoint meth bdy (k + 1)
              (sleep (getRetryDelay e k (now_at world (length (fetch_log st))))
                 (issue cfg endpoint meth bdy k st))
          else (Inl e, issue cfg endpoint meth bdy k st))"
  by (subst makeRequest.simps)
     (simp add: attempt_error_def attempt_data_def Let_def split: fetch_outcome.splits body.splits)

lemma issue_log [simp]:
  "fetch_log (issue cfg endpoint meth bdy k st) = fetch_log st @
     [\<lparr>url = base_url cfg @ endpoint, http_method = meth, payload = bdy, attempt = k\<rparr>]"
  "sleeps (issue cfg endpoint meth bdy k st) = sleeps st"
  "progress (issue cfg endpoint meth bdy k st) = progress st"
  by (simp_all add: issue_def)

lemma sleep_log [simp]:
  "fetch_log (sleep d st) = fetch_log st"
  "sleeps (sleep d st) = sleeps st @ [d]"
  "progress (sleep d st) = progress st"
  by (simp_all add: sleep_def)

lemma makeRequest_log:
  assumes "makeRequest cfg world endpoint meth bdy k st = (res, st')"
  shows "\<exists>new. fetch_log st' = fetch_log st @ new \<and> new \<noteq> []
           \<and> length new \<le> max_retries cfg - k + 1
           \<and> map attempt new = [k..<k + length new]
           \<and> (\<forall>r \<in> set new. url r = base_url cfg @ endpoint \<and> http_method r = meth
                 \<and> payload r = bdy)
           \<and> length (sleeps st') = length (sleeps st) + length new - 1
           \<and> progress st' = progress st"
  using assms
proof (induction "max_retries cfg - k" arbitrary: k st)
  case 0
  then have nr: "\<not> shouldRetry cfg e k" for e by (simp add: shouldRetry_def)
  let ?req = "\<lparr>url = base_url cfg @ endpoint, http_method = meth, payload = bdy, attempt = k\<rparr>"
  have "st' = issue cfg endpoint meth bdy k st"
    using "0.prems" nr by (subst (asm) makeRequest_step) (auto split: option.splits)
  then show ?case by (intro exI [of _ "[?req]"]) simp
next
  case (Suc d)
  let ?req = "\<lparr>url = base_url cfg @ endpoint, http_method = meth, payload = bdy, attempt = k\<rparr>"
  let ?n = "length (fetch_log st)"
  show ?case
  proof (cases "\<exists>e. attempt_error cfg (fetch_at world ?n) = Some e \<and> shouldRetry cfg e k")
    case False
    then have "st' = issue cfg endpoint meth bdy k st"
      using Suc.prems by (subst (asm) makeRequest_step) (auto split: option.splits if_splits)
    then show ?thesis by (intro exI [of _ "[?req]"]) simp
  next
    case True
    then obtain e where e: "attempt_error cfg (fetch_at world ?n) = Some e" "shouldRetry cfg e k"
      by blast
    let ?st2 = "sleep (getRetryDelay e k (now_at world ?n)) (issue cfg endpoint meth bdy k st)"
    have rec: "makeRequest cfg world endpoint meth bdy (k + 1) ?st2 = (res, st')"
      using Suc.prems e by (subst (asm) makeRequest_step) simp
    have d: "d = max_retries cfg - (k + 1)" using Suc.hyps(2) by simp
    from Suc.hyps(1) [OF d rec] obtain new where new:
      "fetch_log st' = fetch_log ?st2 @ new" "new \<noteq> []"
      "length new \<le> max_retries cfg - (k + 1) + 1"
      "map attempt new = [k + 1..<k + 1 + length new]"
      "\<forall>r \<in> set new. url r = base_url cfg @ endpoint \<and> http_method r = meth \<and> payload r = bdy"
      "length (sleeps st') = length (sleeps ?st2) + length new - 1"
      "progress st' = progress ?st2"
      by blast
    have k: "k < max_retries cfg" using Suc.hyps(2) by simp
    have "[k..<k + length (?req # new)] = k # [k + 1..<k + 1 + length new]"
      by (simp add: upt_conv_Cons del: upt_Suc)
    then have "map attempt (?req # new) = [k..<k + length (?req # new)]"
      using new(4) by (simp del: upt_Suc)
    moreover have "length (?req # new) \<le> max_retries cfg - k + 1" using new(3) k by simp
    moreover have "length (sleeps st') = length (sleeps st) + length (?req # new) - 1"
      using new(6) new(2) by (cases new) simp_all
    ultimately show ?thesis
      using new(1,5,7) by (intro exI [of _ "?req # new"]) simp
  qed
qed

lemma makeRequest_failed_attempt:
  assumes "attempt_error cfg (fetch_at world (length (fetch_log st))) = Some e"
  shows "makeRequest cfg world endpoint meth bdy k st =
          (if k < max_retries cfg
              \<and> error_class e \<in> {RateLimitError, TimeoutError, ConnectionError, ServerError}
           then makeRequest cfg world endpoint meth bdy (k + 1)
                  (sleep (getRetryDelay e k (now_at world (length (fetch_log st))))
                     (issue cfg endpoint meth bdy k st))
           else (Inl e, issue cfg endpoint meth bdy k st))"
  using assms by (subst makeRequest_step) (simp add: shouldRetry_iff)

lemma response_error_class:
  "error_class (response_error r) =
     error_class (fromApiResponse (status r) (statusText r) (errorData_of (json r)))"
  by (simp add: response_error_def Let_def)

lemma makeRequest_client_error:
  assumes "fetch_at world (length (fetch_log st)) = Response r"
    and "status r = 401 \<or> status r = 400"
  shows "makeRequest cfg world endpoint meth bdy k st
           = (Inl (response_error r), issue cfg endpoint meth bdy k st)"
    and "error_class (response_error r) =
           (if status r = 401 then InvalidAPIKeyError
            else if opt_member (errorData_of (json r)) ''code'' = JStr ''BATCH_SIZE_EXCEEDED''
            then BatchSizeError else ValidationError)"
proof -
  have nok: "\<not> response_ok r" using assms(2) by (auto simp: response_ok_def)
  show cls: "error_class (response_error r) =
           (if status r = 401 then InvalidAPIKeyError
            else if opt_member (errorData_of (json r)) ''code'' = JStr ''BATCH_SIZE_EXCEEDED''
            then BatchSizeError else ValidationError)"
    using assms(2) by (auto simp: response_error_class fromApiResponse_class)
  have ae: "attempt_error cfg (fetch_at world (length (fetch_log st))) = Some (response_error r)"
    using assms(1) nok by (simp add: attempt_error_def)
  show "makeRequest cfg world endpoint meth bdy k st
           = (Inl (response_error r), issue cfg endpoint meth bdy k st)"
    using cls by (subst makeRequest_failed_attempt [OF ae]) (auto split: if_splits)
qed

lemma makeRequest_call_bound:
  assumes "makeRequest cfg world endpoint meth bdy 0 st = (res, st')"
  shows "\<exists>new. fetch_log st' = fetch_log st @ new \<and> 1 \<le> length new
           \<and> length new \<le> max_retries cfg + 1"
proof -
  from makeRequest_log [OF assms] obtain new where
    "fetch_log st' = fetch_log st @ new" "new \<noteq> []" "length new \<le> max_retries cfg - 0 + 1"
    by blast
  then show ?thesis by (intro exI [of _ new]) (cases new, simp_all)
qed

text \<open>
  C1. After a failed attempt with retry counter \<open>k\<close> the executor retries if and only if
  \<open>k < max_retries\<close> and the error is a rate limit, timeout, connection or server error;
  otherwise the error is returned at once, the attempt's one \<open>fetch\<close> being the only
  addition to the trace. In particular an invalid-credential, validation or batch-too-large
  error is never retried, and a 401 or 400 response is such an error. A logical request
  (retry counter 0) issues at least one and at most \<open>max_retries + 1\<close> calls.
\<close>

theorem retry_policy:
  "(shouldRetry cfg e k \<longleftrightarrow>
      k < max_retries cfg
      \<and> error_class e \<in> {RateLimitError, TimeoutError, ConnectionError, ServerError})
   \<and> (attempt_error cfg (fetch_at world (length (fetch_log st))) = Some e \<longrightarrow>
        makeRequest cfg world endpoint meth bdy k st =
          (if k < max_retries cfg
              \<and> error_class e \<in> {RateLimitError, TimeoutError, ConnectionError, ServerError}
           then makeRequest cfg world endpoint meth bdy (k + 1)
                  (sleep (getRetryDelay e k (now_at world (length (fetch_log st))))
                     (issue cfg endpoint meth bdy k st))
           else (Inl e, issue cfg endpoint meth bdy k st)))
   \<and> (attempt_error cfg (fetch_at world (length (fetch_log st))) = Some e
        \<and> error_class e \<in> {InvalidAPIKeyError, ValidationError, BatchSizeError} \<longrightarrow>
        makeRequest cfg world endpoint meth bdy k st = (Inl e, issue cfg endpoint meth bdy k st))
   \<and> (\<forall>r. fetch_at world (length (fetch_log st)) = Response r
           \<and> (status r = 401 \<or> status r = 400) \<longrightarrow>
        makeRequest cfg world endpoint meth bdy k st
          = (Inl (response_error r), issue cfg endpoint meth bdy k st)
        \<and> error_class (response_error r) =
           (if status r = 401 then InvalidAPIKeyError
            else if opt_member (errorData_of (json r)) ''code'' = JStr ''BATCH_SIZE_EXCEEDED''
            then BatchSizeError else ValidationError))
   \<and> (\<forall>res st'. makeRequest cfg world endpoint meth bdy 0 st = (res, st') \<longrightarrow>
        (\<exists>new. fetch_log st' = fetch_log st @ new \<and> 1 \<le> length new
           \<and> length new \<le> max_retries cfg + 1))"
proof (intro conjI impI allI)
  show "shouldRetry cfg e k \<longleftrightarrow>
      k < max_retries cfg
      \<and> error_class e \<in> {RateLimitError, TimeoutError, ConnectionError, ServerError}"
    by (rule shouldRetry_iff)
next
  assume "attempt_error cfg (fetch_at world (length (fetch_log st))) = Some e"
  then show "makeRequest cfg world endpoint meth bdy k st =
          (if k < max_retries cfg
              \<and> error_class e \<in> {RateLimitError, TimeoutError, ConnectionError, ServerError}
           then makeRequest cfg world endpoint meth bdy (k + 1)
                  (sleep (getRetryDelay e k (now_at world (length (fetch_log st))))
                     (issue cfg endpoint meth bdy k st))
           else (Inl e, issue cfg endpoint meth bdy k st))"
    by (rule makeRequest_failed_attempt)
next
  assume a: "attempt_error cfg (fetch_at world (length (fetch_log st))) = Some e
        \<and> error_class e \<in> {InvalidAPIKeyError, ValidationError, BatchSizeError}"
  then show "makeRequest cfg world endpoint meth bdy k st
               = (Inl e, issue cfg endpoint meth bdy k st)"
    by (subst makeRequest_failed_attempt [of cfg world st e]) auto
next
  fix r
  assume a: "fetch_at world (length (fetch_log st)) = Response r
           \<and> (status r = 401 \<or> status r = 400)"
  show "makeRequest cfg world endpoint meth bdy k st
          = (Inl (response_error r), issue cfg endpoint meth bdy k st)"
    using a by (intro makeRequest_client_error(1)) auto
  show "error_class (response_error r) =
           (if status r = 401 then InvalidAPIKeyError
            else if opt_member (errorData_of (json r)) ''code'' = JStr ''BATCH_SIZE_EXCEEDED''
            then BatchSizeError else ValidationError)"
    using a by (intro makeRequest_client_error(2) [of world st r]) auto
next
  fix res st'
  assume "makeRequest cfg world endpoint meth bdy 0 st = (res, st')"
  then show "\<exists>new. fetch_log st' = fetch_log st @ new \<and> 1 \<le> length new
           \<and> length new \<le> max_retries cfg + 1"
    by (rule makeRequest_call_bound)
qed

lemma always_fetch [simp]: "fetch_at (always r) n = r"
  by (simp add: always_def)

lemma then_always_fetch [simp]:
  "fetch_at (then_always r r') 0 = r" "0 < n \<Longrightarrow> fetch_at (then_always r r') n = r'"
  by (simp_all add: then_always_def)

lemma example_503_error:
  "attempt_error cfg (Response example_503) = Some (response_error example_503)"
  "error_class (response_error example_503) = ServerError"
  by (simp_all add: attempt_error_def response_ok_def example_503_def response_error_class
      fromApiResponse_class)

theorem retry_policy_witness:
  "makeRequest example_config (always (Response example_401)) ''/api/v1/verify'' ''POST'' JNull
      0 empty_trace
     = (Inl (response_error example_401),
        issue example_config ''/api/v1/verify'' ''POST'' JNull 0 empty_trace)
   \<and> error_class (response_error example_401) = InvalidAPIKeyError
   \<and> length (fetch_log (issue example_config ''/api/v1/verify'' ''POST'' JNull 0 empty_trace)) = 1
   \<and> shouldRetry example_config (new_TimeoutError (JStr ''Request timed out'') JUndefined) 2
   \<and> \<not> shouldRetry example_config (new_TimeoutError (JStr ''Request timed out'') JUndefined) 3
   \<and> \<not> shouldRetry example_config (response_error example_401) 0
   \<and> makeRequest example_config (then_always (Response example_503) (Response example_401))
        ''/api/v1/verify'' ''POST'' JNull 0 empty_trace
       = (Inl (response_error example_401),
          issue example_config ''/api/v1/verify'' ''POST'' JNull 1
            (sleep (Some (Num 1000))
               (issue example_config ''/api/v1/verify'' ''POST'' JNull 0 empty_trace)))"
proof -
  have f: "fetch_at (always (Response example_401)) (length (fetch_log empty_trace))
             = Response example_401 \<and> (status example_401 = 401 \<or> status example_401 = 400)"
    by (simp add: example_401_def)
  from retry_policy [where world = "always (Response example_401)" and cfg = example_config
      and st = empty_trace and endpoint = "''/api/v1/verify''" and meth = "''POST''"
      and bdy = JNull and k = 0
      and e = "new_TimeoutError (JStr ''Request timed out'') JUndefined"] f
  have a: "makeRequest example_config (always (Response example_401)) ''/api/v1/verify''
             ''POST'' JNull 0 empty_trace
           = (Inl (response_error example_401),
              issue example_config ''/api/v1/verify'' ''POST'' JNull 0 empty_trace)"
    and b: "error_class (response_error example_401) = InvalidAPIKeyError"
    by (blast, simp add: example_401_def)
  have c: "shouldRetry example_config (new_TimeoutError (JStr ''Request timed out'') JUndefined) 2"
    "\<not> shouldRetry example_config (new_TimeoutError (JStr ''Request timed out'') JUndefined) 3"
    using retry_policy [where cfg = example_config and k = 2
        and e = "new_TimeoutError (JStr ''Request timed out'') JUndefined"]
      retry_policy [where cfg = example_config and k = 3
        and e = "new_TimeoutError (JStr ''Request timed out'') JUndefined"]
    by (simp_all add: example_config_def new_TimeoutError_def)
  have d: "\<not> shouldRetry example_config (response_error example_401) 0"
    using retry_policy [where cfg = example_config and k = 0
        and e = "response_error example_401"] b
    by simp
  let ?world = "then_always (Response example_503) (Response example_401)"
  let ?st1 = "sleep (getRetryDelay (response_error example_503) 0
                       (now_at ?world (length (fetch_log empty_trace))))
                (issue example_config ''/api/v1/verify'' ''POST'' JNull 0 empty_trace)"
  have a0: "attempt_error example_config (fetch_at ?world (length (fetch_log empty_trace)))
              = Some (response_error example_503)"
    by (simp add: empty_trace_def example_503_error)
  have s0: "makeRequest example_config ?world ''/api/v1/verify'' ''POST'' JNull 0 empty_trace
        = makeRequest example_config ?world ''/api/v1/verify'' ''POST'' JNull (0 + 1) ?st1"
    using retry_policy [where cfg = example_config and world = ?world and st = empty_trace
        and e = "response_error example_503" and k = 0 and endpoint = "''/api/v1/verify''"
        and meth = "''POST''" and bdy = JNull] a0
    by (simp add: example_503_error example_config_def)
  have f1: "fetch_at ?world (length (fetch_log ?st1)) = Response example_401
             \<and> (status example_401 = 401 \<or> status example_401 = 400)"
    by (simp add: empty_trace_def example_401_def)
  have s1: "makeRequest example_config ?world ''/api/v1/verify'' ''POST'' JNull (0 + 1) ?st1
        = (Inl (response_error example_401),
           issue example_config ''/api/v1/verify'' ''POST'' JNull (0 + 1) ?st1)"
    using retry_policy [where cfg = example_config and world = ?world and st = ?st1
        and e = "response_error example_503" and k = "0 + 1" and endpoint = "''/api/v1/verify''"
        and meth = "''POST''" and bdy = JNull] f1
    by blast
  have dl: "getRetryDelay (response_error example_503) 0
             (now_at ?world (length (fetch_log empty_trace))) = Some (Num 1000)"
    by (simp add: getRetryDelay_def example_503_error RETRY_BASE_DELAY_def MAX_RETRY_DELAY_def)
  have e: "makeRequest example_config ?world ''/api/v1/verify'' ''POST'' JNull 0 empty_trace
       = (Inl (response_error example_401),
          issue example_config ''/api/v1/verify'' ''POST'' JNull 1
            (sleep (Some (Num 1000))
               (issue example_config ''/api/v1/verify'' ''POST'' JNull 0 empty_trace)))"
    using s0 s1 dl by simp
  show ?thesis using a b c d e by (simp add: empty_trace_def)
qed

lemma malformed_attempt:
  assumes "response_ok r" "json r = Malformed m"
  shows "attempt_error cfg (Response r)
           = Some (new_ConnectionError (JStr (''Request failed: '' @ m)) JUndefined)"
  using assms by (simp add: attempt_error_def)

lemma connection_delay:
  "getRetryDelay (new_ConnectionError msg dets) k now = Some (Num (min (1000 * 2 ^ k) 30000))"
  by (simp add: getRetryDelay_def new_ConnectionError_def RETRY_BASE_DELAY_def MAX_RETRY_DELAY_def)

lemma makeRequest_malformed:
  assumes "fetch_at world (length (fetch_log st)) = Response r" "response_ok r"
    "json r = Malformed m"
  shows "makeRequest cfg world endpoint meth bdy k st =
         (if k < max_retries cfg
          then makeRequest cfg world endpoint meth bdy (k + 1)
                 (sleep (Some (Num (min (1000 * 2 ^ k) 30000))) (issue cfg endpoint meth bdy k st))
          else (Inl (new_ConnectionError (JStr (''Request failed: '' @ m)) JUndefined),
                issue cfg endpoint meth bdy k st))"
proof -
  have ae: "attempt_error cfg (fetch_at world (length (fetch_log st)))
           = Some (new_ConnectionError (JStr (''Request failed: '' @ m)) JUndefined)"
    using assms malformed_attempt by simp
  show ?thesis
    by (subst makeRequest_failed_attempt [OF ae])
       (simp add: connection_delay, simp add: new_ConnectionError_def)
qed

lemma makeRequest_always_malformed:
  assumes all: "\<forall>n. \<exists>r m. fetch_at world n = Response r \<and> response_ok r \<and> json r = Malformed m"
    and "k \<le> max_retries cfg"
  shows "\<exists>e st'. makeRequest cfg world endpoint meth bdy k st = (Inl e, st')
           \<and> error_class e = ConnectionError
           \<and> length (fetch_log st') = length (fetch_log st) + (max_retries cfg - k) + 1
           \<and> sleeps st' = sleeps st
                @ map (\<lambda>j. Some (Num (min (1000 * 2 ^ j) 30000))) [k..<max_retries cfg]"
  using assms(2)
proof (induction "max_retries cfg - k" arbitrary: k st)
  case 0
  then have k: "k = max_retries cfg" by simp
  from all obtain r m where r: "fetch_at world (length (fetch_log st)) = Response r"
    "response_ok r" "json r = Malformed m" by blast
  show ?case
    using makeRequest_malformed [OF r, of cfg endpoint meth bdy k] k
    by (simp add: new_ConnectionError_def)
next
  case (Suc d)
  then have k: "k < max_retries cfg" by simp
  from all obtain r m where r: "fetch_at world (length (fetch_log st)) = Response r"
    "response_ok r" "json r = Malformed m" by blast
  let ?st2 = "sleep (Some (Num (min (1000 * 2 ^ k) 30000))) (issue cfg endpoint meth bdy k st)"
  have step: "makeRequest cfg world endpoint meth bdy k st
                = makeRequest cfg world endpoint meth bdy (k + 1) ?st2"
    using makeRequest_malformed [OF r, of cfg endpoint meth bdy k] k by simp
  have d: "d = max_retries cfg - (k + 1)" using Suc.hyps(2) by simp
  have k1: "k + 1 \<le> max_retries cfg" using k by simp
  from Suc.hyps(1) [OF d k1, of ?st2] obtain e st' where
    rec: "makeRequest cfg world endpoint meth bdy (k + 1) ?st2 = (Inl e, st')"
      "error_class e = ConnectionError"
      "length (fetch_log st') = length (fetch_log ?st2) + (max_retries cfg - (k + 1)) + 1"
      "sleeps st' = sleeps ?st2
         @ map (\<lambda>j. Some (Num (min (1000 * 2 ^ j) 30000))) [k + 1..<max_retries cfg]"
    by blast
  have "[k..<max_retries cfg] = k # [k + 1..<max_retries cfg]"
    using k by (simp add: upt_conv_Cons)
  then have "sleeps st' = sleeps st
       @ map (\<lambda>j. Some (Num (min (1000 * 2 ^ j) 30000))) [k..<max_retries cfg]"
    using rec(4) by simp
  moreover have "length (fetch_log st') = length (fetch_log st) + (max_retries cfg - k) + 1"
    using rec(3) k by simp
  ultimately show ?case using step rec(1,2) by simp
qed

text \<open>
  C10. A response with a 2xx status whose body does not decode is classified as a
  connection error (not a validation error), with the decoder's message; it is retried with
  the exponential backoff while the retry counter is below \<open>max_retries\<close> and returned
  otherwise. When every attempt meets such a response, the request ends with a connection
  error after \<open>max_retries + 1\<close> calls and the delays 1000, 2000, 4000, ...
\<close>

theorem malformed_success_body:
  "(fetch_at world (length (fetch_log st)) = Response r \<and> response_ok r
      \<and> json r = Malformed m \<longrightarrow>
       attempt_error cfg (Response r)
         = Some (new_ConnectionError (JStr (''Request failed: '' @ m)) JUndefined)
     \<and> error_class (new_ConnectionError (JStr (''Request failed: '' @ m)) JUndefined)
         = ConnectionError
     \<and> makeRequest cfg world endpoint meth bdy k st =
         (if k < max_retries cfg
          then makeRequest cfg world endpoint meth bdy (k + 1)
                 (sleep (Some (Num (min (1000 * 2 ^ k) 30000))) (issue cfg endpoint meth bdy k st))
          else (Inl (new_ConnectionError (JStr (''Request failed: '' @ m)) JUndefined),
                issue cfg endpoint meth bdy k st)))
   \<and> ((\<forall>n. \<exists>r m. fetch_at world n = Response r \<and> response_ok r \<and> json r = Malformed m) \<longrightarrow>
        (\<exists>e st'. makeRequest cfg world endpoint meth bdy 0 st = (Inl e, st')
           \<and> error_class e = ConnectionError
           \<and> length (fetch_log st') = length (fetch_log st) + max_retries cfg + 1
           \<and> sleeps st' = sleeps st
                @ map (\<lambda>j. Some (Num (min (1000 * 2 ^ j) 30000))) [0..<max_retries cfg]))"
proof (intro conjI impI)
  assume a: "fetch_at world (length (fetch_log st)) = Response r \<and> response_ok r
      \<and> json r = Malformed m"
  show "attempt_error cfg (Response r)
         = Some (new_ConnectionError (JStr (''Request failed: '' @ m)) JUndefined)"
    using a by (intro malformed_attempt) auto
  show "error_class (new_ConnectionError (JStr (''Request failed: '' @ m)) JUndefined)
         = ConnectionError"
    by (simp add: new_ConnectionError_def)
  show "makeRequest cfg world endpoint meth bdy k st =
         (if k < max_retries cfg
          then makeRequest cfg world endpoint meth bdy (k + 1)
                 (sleep (Some (Num (min (1000 * 2 ^ k) 30000))) (issue cfg endpoint meth bdy k st))
          else (Inl (new_ConnectionError (JStr (''Request failed: '' @ m)) JUndefined),
                issue cfg endpoint meth bdy k st))"
    using a by (intro makeRequest_malformed) auto
next
  assume "\<forall>n. \<exists>r m. fetch_at world n = Response r \<and> response_ok r \<and> json r = Malformed m"
  from makeRequest_always_malformed [OF this, of 0 cfg endpoint meth bdy st]
  show "\<exists>e st'. makeRequest cfg world endpoint meth bdy 0 st = (Inl e, st')
           \<and> error_class e = ConnectionError
           \<and> length (fetch_log st') = length (fetch_log st) + max_retries cfg + 1
           \<and> sleeps st' = sleeps st
                @ map (\<lambda>j. Some (Num (min (1000 * 2 ^ j) 30000))) [0..<max_retries cfg]"
    by simp
qed

theorem malformed_success_body_witness:
  "\<exists>e st'. makeRequest example_config (always (Response example_malformed))
               ''/api/v1/verify'' ''POST'' JNull 0 empty_trace = (Inl e, st')
      \<and> error_class e = ConnectionError
      \<and> length (fetch_log st') = 4
      \<and> sleeps st' = [Some (Num 1000), Some (Num 2000), Some (Num 4000)]"
proof -
  have ok: "response_ok example_malformed"
    and j: "json example_malformed = Malformed ''Unexpected token < in JSON at position 0''"
    by (simp_all add: example_malformed_def response_ok_def)
  have all: "\<forall>n. \<exists>r m. fetch_at (always (Response example_malformed)) n = Response r
                \<and> response_ok r \<and> json r = Malformed m"
    using ok j by simp
  have three: "[0..<max_retries example_config] = [0, 1, 2]"
    by (simp add: example_config_def upt_rec)
  from malformed_success_body [where world = "always (Response example_malformed)"
      and cfg = example_config and st = empty_trace and endpoint = "''/api/v1/verify''"
      and meth = "''POST''" and bdy = JNull] all
  obtain e st' where
    "makeRequest example_config (always (Response example_malformed))
        ''/api/v1/verify'' ''POST'' JNull 0 empty_trace = (Inl e, st')"
    "error_class e = ConnectionError"
    "length (fetch_log st') = length (fetch_log empty_trace) + max_retries example_config + 1"
    "sleeps st' = sleeps empty_trace
        @ map (\<lambda>j. Some (Num (min (1000 * 2 ^ j) 30000))) [0..<max_retries example_config]"
    by blast
  then show ?thesis
    unfolding three by (intro exI [of _ e] exI [of _ st'])
      (simp add: empty_trace_def example_config_def)
qed

section \<open>Properties of the indexed shape\<close>





















section \<open>Properties of batch verification\<close>

text \<open>
  C4. An argument that is not an array, or an empty array, is answered with a validation
  error, and an array of more than 10000 emails with a batch-too-large error; in both cases
  the trace is the one the call started with: no \<open>fetch\<close>, no sleep, hence no retry.
\<close>

theorem verifyBatch_preconditions:
  "(emails_arg = None \<or> emails_arg = Some [] \<longrightarrow>
      (\<exists>e. verifyBatch cfg world emails_arg options st = Some (Inl (Typed e), st)
          \<and> error_class e = ValidationError))
   \<and> (\<forall>emails. emails_arg = Some emails \<and> length emails > 10000 \<longrightarrow>
      (\<exists>e. verifyBatch cfg world emails_arg options st = Some (Inl (Typed e), st)
          \<and> error_class e = BatchSizeError))"
  by (auto simp: verifyBatch_def MAX_BATCH_SIZE_def new_ValidationError_def new_BatchSizeError_def)

theorem verifyBatch_preconditions_witness:
  "(\<exists>e. verifyBatch example_config (always Aborted) (Some []) (example_options COMPACT) empty_trace
          = Some (Inl (Typed e), empty_trace) \<and> error_class e = ValidationError)
   \<and> (\<exists>e. verifyBatch example_config (always Aborted) None (example_options COMPACT) empty_trace
          = Some (Inl (Typed e), empty_trace) \<and> error_class e = ValidationError)
   \<and> (\<exists>e. verifyBatch example_config (always Aborted) (Some (replicate 10001 ''a@example.com''))
             (example_options COMPACT) empty_trace
          = Some (Inl (Typed e), empty_trace) \<and> error_class e = BatchSizeError)
   \<and> fetch_log empty_trace = []"
  using verifyBatch_preconditions [of "Some []" example_config "always Aborted"
      "example_options COMPACT" empty_trace]
    verifyBatch_preconditions [of None example_config "always Aborted"
      "example_options COMPACT" empty_trace]
    verifyBatch_preconditions [of "Some (replicate 10001 ''a@example.com'')" example_config
      "always Aborted" "example_options COMPACT" empty_trace]
  by (simp add: empty_trace_def)

lemma first_attempts_single:
  assumes "map attempt new = [k..<k + length new]" "new \<noteq> []"
  shows "filter (\<lambda>r. attempt r = k) new = [hd new]"
proof -
  obtain x rest where n: "new = x # rest" using assms(2) by (cases new) auto
  have "[k..<k + length new] = k # [Suc k..<Suc k + length rest]"
    using n by (simp add: upt_conv_Cons del: upt_Suc)
  with assms(1) n have x: "attempt x = k" and rest: "map attempt rest = [Suc k..<Suc k + length rest]"
    by (simp_all del: upt_Suc)
  have "\<forall>r \<in> set rest. attempt r \<noteq> k"
  proof
    fix r assume "r \<in> set rest"
    then have "attempt r \<in> set (map attempt rest)" by simp
    then have "attempt r \<in> {Suc k..<Suc k + length rest}"
      unfolding rest by (simp only: set_upt)
    then show "attempt r \<noteq> k" by simp
  qed
  then have "filter (\<lambda>r. attempt r = k) rest = []" by (simp add: filter_empty_conv)
  with x n show ?thesis by simp
qed

lemma processBatchChunk_log:
  assumes "processBatchChunk cfg world emails fmt dbg share st = (res, st')"
  shows "\<exists>new. fetch_log st' = fetch_log st @ new
           \<and> 1 \<le> length new \<and> length new \<le> max_retries cfg + 1
           \<and> map attempt new = [0..<length new]
           \<and> (\<forall>r \<in> set new. url r = base_url cfg @ ''/api/v1/verify/bulk''
                 \<and> http_method r = ''POST'' \<and> payload r = bulk_body emails fmt dbg share)
           \<and> map payload (first_attempts new) = [bulk_body emails fmt dbg share]
           \<and> progress st' = progress st"
proof -
  obtain r st1 where mr: "makeRequest cfg world ''/api/v1/verify/bulk'' ''POST''
        (bulk_body emails fmt dbg share) 0 st = (r, st1)"
    by (cases "makeRequest cfg world ''/api/v1/verify/bulk'' ''POST''
        (bulk_body emails fmt dbg share) 0 st")
  have st': "st' = st1"
    using assms mr by (auto simp: processBatchChunk_def split: sum.splits prod.splits)
  from makeRequest_log [OF mr] obtain new where new:
    "fetch_log st1 = fetch_log st @ new" "new \<noteq> []" "length new \<le> max_retries cfg - 0 + 1"
    "map attempt new = [0..<0 + length new]"
    "\<forall>r \<in> set new. url r = base_url cfg @ ''/api/v1/verify/bulk'' \<and> http_method r = ''POST''
         \<and> payload r = bulk_body emails fmt dbg share"
    "progress st1 = progress st"
    by blast
  have "filter (\<lambda>r. attempt r = 0) new = [hd new]"
    using first_attempts_single [of new 0] new(2,4) by simp
  moreover have "payload (hd new) = bulk_body emails fmt dbg share"
    using new(2,5) by (cases new) auto
  ultimately have "map payload (first_attempts new) = [bulk_body emails fmt dbg share]"
    by (simp add: first_attempts_def)
  moreover have "1 \<le> length new" using new(2) by (cases new) auto
  ultimately show ?thesis
    using new st' by (intro exI [of _ new]) simp
qed

lemma verifyBatch_chunks_log:
  assumes "verifyBatch_chunks cfg world fmt dbg share cb ntotal chunks results processed st
             = (Inr res, st')"
  shows "\<exists>new. fetch_log st' = fetch_log st @ new
           \<and> map payload (first_attempts new) = map (\<lambda>ch. bulk_body ch fmt dbg share) chunks
           \<and> progress st' = progress st
                @ (if cb then map (\<lambda>p. (p, ntotal)) (running processed chunks) else [])"
  using assms
proof (induction chunks arbitrary: results processed st)
  case Nil
  then show ?case by (simp add: first_attempts_def)
next
  case (Cons chunk chunks)
  obtain r st1 where pc: "processBatchChunk cfg world chunk fmt dbg share st = (r, st1)"
    by (cases "processBatchChunk cfg world chunk fmt dbg share st")
  from Cons.prems pc obtain chunkResults where r: "r = Inr chunkResults"
    by (cases r) auto
  let ?st2 = "if cb then st1\<lparr>progress := progress st1 @ [(processed + length chunk, ntotal)]\<rparr>
              else st1"
  have rec: "verifyBatch_chunks cfg world fmt dbg share cb ntotal chunks
               (object_assign results chunkResults) (processed + length chunk) ?st2
             = (Inr res, st')"
    using Cons.prems pc r by (simp add: Let_def)
  from processBatchChunk_log [OF pc] obtain new1 where new1:
    "fetch_log st1 = fetch_log st @ new1"
    "map payload (first_attempts new1) = [bulk_body chunk fmt dbg share]"
    "progress st1 = progress st"
    by auto
  from Cons.IH [OF rec] obtain new2 where new2:
    "fetch_log st' = fetch_log ?st2 @ new2"
    "map payload (first_attempts new2) = map (\<lambda>ch. bulk_body ch fmt dbg share) chunks"
    "progress st' = progress ?st2
        @ (if cb then map (\<lambda>p. (p, ntotal)) (running (processed + length chunk) chunks) else [])"
    by blast
  have "fetch_log st' = fetch_log st @ (new1 @ new2)"
    using new1(1) new2(1) by simp
  moreover have "map payload (first_attempts (new1 @ new2))
                   = map (\<lambda>ch. bulk_body ch fmt dbg share) (chunk # chunks)"
    using new1(2) new2(2) by (simp add: first_attempts_def)
  moreover have "progress st' = progress st
          @ (if cb then map (\<lambda>p. (p, ntotal)) (running processed (chunk # chunks)) else [])"
    using new1(3) new2(3) by simp
  ultimately show ?case by blast
qed

lemma ceil_step:
  fixes c d :: nat
  assumes "0 < c" "0 < d"
  shows "(d + c - 1) div c = Suc ((d - c + c - 1) div c)"
proof (cases "c \<le> d")
  case True
  have e: "d + c - 1 = (d - 1) + c" using assms by simp
  have "((d - 1) + c) div c = Suc ((d - 1) div c)"
    using assms(1) by (simp add: div_add_self2)
  moreover have "d - c + c - 1 = d - 1" using True by simp
  ultimately show ?thesis using e by simp
next
  case False
  then have "d - c + c - 1 = c - 1" by simp
  moreover have "(c - 1) div c = 0" using assms by simp
  moreover have "(d + c - 1) div c = 1"
  proof -
    have e: "d + c - 1 = (d - 1) + c" using assms by simp
    have "d - 1 < c" using False by simp
    then have "(d - 1) div c = 0" by simp
    moreover have "((d - 1) + c) div c = Suc ((d - 1) div c)"
      using assms(1) by (simp add: div_add_self2)
    ultimately show ?thesis using e by simp
  qed
  ultimately show ?thesis by simp
qed

lemma chunkArray_from_slices:
  assumes "0 < c"
  shows "chunkArray_from xs c i chunks =
           Some (chunks @ map (\<lambda>k. slice xs (i + k * c) (i + k * c + c))
                           [0..<(length xs - i + c - 1) div c])"
proof (induction "length xs - i" arbitrary: i chunks rule: less_induct)
  case less
  show ?case
  proof (cases "i < length xs")
    case False
    then have "(length xs - i + c - 1) div c = 0" using assms by simp
    with False show ?thesis by (subst chunkArray_from.simps) simp
  next
    case True
    then have d: "0 < length xs - i" by simp
    have lt: "length xs - (i + c) < length xs - i" using True assms by simp
    have m: "(length xs - i + c - 1) div c = Suc ((length xs - (i + c) + c - 1) div c)"
      using ceil_step [OF assms d] by (simp add: diff_diff_left)
    have "chunkArray_from xs c i chunks =
            chunkArray_from xs c (i + c) (chunks @ [slice xs i (i + c)])"
      using True by (subst chunkArray_from.simps) simp
    also have "\<dots> = Some ((chunks @ [slice xs i (i + c)])
                 @ map (\<lambda>k. slice xs (i + c + k * c) (i + c + k * c + c))
                     [0..<(length xs - (i + c) + c - 1) div c])"
      by (rule less [OF lt])
    also have "(chunks @ [slice xs i (i + c)])
                 @ map (\<lambda>k. slice xs (i + c + k * c) (i + c + k * c + c))
                     [0..<(length xs - (i + c) + c - 1) div c]
               = chunks @ map (\<lambda>k. slice xs (i + k * c) (i + k * c + c))
                           [0..<(length xs - i + c - 1) div c]"
      unfolding m by (simp add: map_upt_Suc add.assoc add.left_commute del: upt_Suc)
    finally show ?thesis .
  qed
qed

lemma chunkArray_slices:
  assumes "0 < c"
  shows "chunkArray xs c =
           Some (map (\<lambda>k. slice xs (k * c) (k * c + c)) [0..<(length xs + c - 1) div c])"
  using chunkArray_from_slices [OF assms, of xs 0 "[]"] by (simp add: chunkArray_def)

lemma concat_slices: "concat (map (\<lambda>k. slice xs (k * c) (k * c + c)) [0..<m]) = take (m * c) xs"
proof (induction m)
  case 0
  then show ?case by simp
next
  case (Suc m)
  have "take (m * c + c) xs = take (m * c) xs @ take c (drop (m * c) xs)"
    by (rule take_add)
  with Suc show ?case by (simp add: slice_def add.commute)
qed

lemma ceil_covers:
  fixes c n :: nat
  assumes "0 < c"
  shows "n \<le> ((n + c - 1) div c) * c"
proof -
  have "n + c - 1 = ((n + c - 1) div c) * c + (n + c - 1) mod c" by simp
  moreover have "(n + c - 1) mod c < c" using assms by simp
  ultimately show ?thesis by linarith
qed

lemma concat_chunks:
  assumes "0 < c"
  shows "concat (map (\<lambda>k. slice xs (k * c) (k * c + c)) [0..<(length xs + c - 1) div c]) = xs"
  using ceil_covers [OF assms, of "length xs"] by (simp add: concat_slices)

lemma length_slice: "length (slice xs (k * c) (k * c + c)) = min c (length xs - k * c)"
  by (simp add: slice_def)

lemma running_slices:
  "running (min (a * c) (length xs)) (map (\<lambda>k. slice xs (k * c) (k * c + c)) [a..<m])
     = map (\<lambda>k. min (k * c) (length xs)) [Suc a..<Suc m]"
proof (induction "m - a" arbitrary: a)
  case 0
  then show ?case by simp
next
  case (Suc d)
  then have am: "a < m" and d: "d = m - Suc a" by simp_all
  have step: "min (a * c) (length xs) + min c (length xs - a * c) = min (Suc a * c) (length xs)"
    by (cases "a * c \<le> length xs") (auto simp: min_def)
  have "[a..<m] = a # [Suc a..<m]" using am by (simp add: upt_conv_Cons)
  moreover have "[Suc a..<Suc m] = Suc a # [Suc (Suc a)..<Suc m]"
    using am by (simp add: upt_conv_Cons del: upt_Suc)
  ultimately show ?case
    using Suc.hyps(1) [OF d] step by (simp add: length_slice del: upt_Suc)
qed

lemma running_chunks:
  "running 0 (map (\<lambda>k. slice xs (k * c) (k * c + c)) [0..<m])
     = map (\<lambda>k. min (k * c) (length xs)) [1..<Suc m]"
  using running_slices [of 0 c xs m] by simp

text \<open>
  With a chunk size of \<open>0\<close> the loop of \<open>chunkArray\<close> never advances, and a batch
  longer than the chunk size does not return.
\<close>

lemma chunkArray_from_zero:
  assumes "chunkArray_from xs c i chunks = Some y"
  shows "c = 0 \<longrightarrow> \<not> i < length xs"
proof (rule chunkArray_from.raw_induct
    [where P = "\<lambda>array chunkSize i chunks y. chunkSize = 0 \<longrightarrow> \<not> i < length array",
      OF _ assms])
  fix f :: "'a list \<Rightarrow> nat \<Rightarrow> nat \<Rightarrow> 'a list list \<Rightarrow> 'a list list option"
    and array chunkSize i chunks y
  assume IH: "\<And>array chunkSize i chunks y. f array chunkSize i chunks = Some y \<Longrightarrow>
                chunkSize = 0 \<longrightarrow> \<not> i < length array"
    and eq: "(if i < length array
              then f array chunkSize (i + chunkSize) (chunks @ [slice array i (i + chunkSize)])
              else Some chunks) = Some y"
  show "chunkSize = 0 \<longrightarrow> \<not> i < length array"
  proof (intro impI notI)
    assume z: "chunkSize = 0" and lt: "i < length array"
    from eq lt have "f array chunkSize (i + chunkSize)
        (chunks @ [slice array i (i + chunkSize)]) = Some y" by simp
    from IH [OF this] z lt show False by simp
  qed
qed

lemma chunkArray_zero: "xs \<noteq> [] \<Longrightarrow> chunkArray xs 0 = None"
proof (rule ccontr)
  assume ne: "xs \<noteq> []" and "chunkArray xs 0 \<noteq> None"
  then obtain y where "chunkArray_from xs 0 0 [] = Some y" by (auto simp: chunkArray_def)
  from chunkArray_from_zero [OF this] ne show False by simp
qed

lemma verifyBatch_chunk_size_zero:
  assumes "emails \<noteq> []" "length emails \<le> 10000" "batch_chunk_size cfg options = 0"
  shows "verifyBatch cfg world (Some emails) options st = None"
  using assms by (simp add: verifyBatch_def MAX_BATCH_SIZE_def Let_def chunkArray_zero)

lemma verifyBatch_chunked_eq:
  assumes "0 < c" and "c < length emails" and "length emails \<le> 10000"
    and "batch_chunk_size cfg options = c"
  shows "verifyBatch cfg world (Some emails) options st =
     Some (verifyBatch_chunks cfg world (batch_format options) (batch_debug options)
             (share_signals options) (progress_callback options) (length emails)
             (map (\<lambda>k. slice emails (k * c) (k * c + c)) [0..<(length emails + c - 1) div c])
             [] 0 st)"
proof -
  have ca: "chunkArray emails c =
      Some (map (\<lambda>k. slice emails (k * c) (k * c + c)) [0..<(length emails + c - 1) div c])"
    using assms(1) by (rule chunkArray_slices)
  have n0: "length emails \<noteq> 0" using assms(2) by auto
  have nle: "\<not> length emails \<le> c" using assms(2) by simp
  have nmax: "\<not> MAX_BATCH_SIZE < length emails" using assms(3) by (simp add: MAX_BATCH_SIZE_def)
  show ?thesis
    using n0 nle nmax by (simp add: verifyBatch_def Let_def assms(4) ca)
qed


lemma ceil_least:
  fixes c n :: nat
  assumes "0 < c" "0 < n"
  shows "((n + c - 1) div c - 1) * c < n"
proof -
  have "(n + c - 1) div c = ((n - 1) + c) div c"
    using assms(2) by (intro arg_cong [where f = "\<lambda>x. x div c"]) simp
  also have "\<dots> = Suc ((n - 1) div c)"
    using assms(1) by (simp add: div_add_self2)
  finally have m: "(n + c - 1) div c - 1 = (n - 1) div c" by simp
  have "((n - 1) div c) * c \<le> n - 1" by simp
  then have "((n - 1) div c) * c < n" using assms(2) by linarith
  then show ?thesis unfolding m .
qed

lemma slice_bounds:
  assumes "0 < c" "k < (length xs + c - 1) div c"
  shows "length (slice xs (k * c) (k * c + c)) \<le> c \<and> slice xs (k * c) (k * c + c) \<noteq> []"
proof -
  have "k * c < length xs"
  proof (rule ccontr)
    assume "\<not> k * c < length xs"
    then have "length xs + c - 1 < k * c + c" using assms(1) by linarith
    then have "length xs + c - 1 < Suc k * c" by simp
    then have "(length xs + c - 1) div c < Suc k"
      using assms(1) by (simp only: div_less_iff_less_mult)
    with assms(2) show False by simp
  qed
  then have "0 < length xs - k * c" by simp
  then have "0 < min c (length xs - k * c)" using assms(1) by simp
  then have "0 < length (slice xs (k * c) (k * c + c))" by (simp only: length_slice)
  moreover have "length (slice xs (k * c) (k * c + c)) \<le> c" by (simp add: length_slice)
  ultimately show ?thesis by auto
qed

text \<open>
  C5. Let \<open>n\<close> be the number of emails and \<open>c\<close> the chunk size, with
  \<open>0 < c < n \<le> 10000\<close>, and write \<open>m\<close> for \<open>(n + c - 1) div c\<close>, the least number with
  \<open>n \<le> m * c\<close>. The call returns. The chunks are the \<open>m\<close> consecutive slices
  \<open>emails[k*c .. k*c + c)\<close>: each has at most \<open>c\<close> elements and at least one, and their
  concatenation is the input. When the call succeeds, the logical calls it issued (the first
  attempts in the trace) are exactly one per chunk, in order, each carrying its chunk, and a
  supplied progress callback was invoked once per chunk with \<open>(min(k*c, n), n)\<close> for
  \<open>k = 1 .. m\<close>, that is \<open>c, 2c, ..., n\<close>.
\<close>

theorem verifyBatch_chunked:
  assumes "0 < c" and "c < length emails" and "length emails \<le> 10000"
    and "batch_chunk_size cfg options = c"
  shows "(\<exists>r. verifyBatch cfg world (Some emails) options st = Some r)
     \<and> (\<forall>res st'. verifyBatch cfg world (Some emails) options st = Some (Inr res, st') \<longrightarrow>
          (\<exists>new. fetch_log st' = fetch_log st @ new
             \<and> map payload (first_attempts new)
                 = map (\<lambda>k. bulk_body (slice emails (k * c) (k * c + c)) (batch_format options)
                              (batch_debug options) (share_signals options))
                     [0..<(length emails + c - 1) div c]
             \<and> length (first_attempts new) = (length emails + c - 1) div c
             \<and> (progress_callback options \<longrightarrow>
                  progress st' = progress st
                    @ map (\<lambda>k. (min (k * c) (length emails), length emails))
                        [1..<Suc ((length emails + c - 1) div c)])))
     \<and> concat (map (\<lambda>k. slice emails (k * c) (k * c + c))
                 [0..<(length emails + c - 1) div c]) = emails
     \<and> (\<forall>k < (length emails + c - 1) div c.
           length (slice emails (k * c) (k * c + c)) \<le> c
           \<and> slice emails (k * c) (k * c + c) \<noteq> [])
     \<and> ((length emails + c - 1) div c - 1) * c < length emails
     \<and> length emails \<le> ((length emails + c - 1) div c) * c"
proof -
  let ?m = "(length emails + c - 1) div c"
  let ?chunks = "map (\<lambda>k. slice emails (k * c) (k * c + c)) [0..<?m]"
  note eq = verifyBatch_chunked_eq [OF assms, of world st]
  have 1: "\<exists>r. verifyBatch cfg world (Some emails) options st = Some r"
    using eq by simp
  have 2: "\<exists>new. fetch_log st' = fetch_log st @ new
             \<and> map payload (first_attempts new)
                 = map (\<lambda>k. bulk_body (slice emails (k * c) (k * c + c)) (batch_format options)
                              (batch_debug options) (share_signals options)) [0..<?m]
             \<and> length (first_attempts new) = ?m
             \<and> (progress_callback options \<longrightarrow>
                  progress st' = progress st
                    @ map (\<lambda>k. (min (k * c) (length emails), length emails)) [1..<Suc ?m])"
    if "verifyBatch cfg world (Some emails) options st = Some (Inr res, st')" for res st'
  proof -
    from that eq have "verifyBatch_chunks cfg world (batch_format options) (batch_debug options)
             (share_signals options) (progress_callback options) (length emails)
             ?chunks [] 0 st = (Inr res, st')"
      by simp
    from verifyBatch_chunks_log [OF this] obtain new where new:
      "fetch_log st' = fetch_log st @ new"
      "map payload (first_attempts new) =
         map (\<lambda>ch. bulk_body ch (batch_format options) (batch_debug options)
                     (share_signals options)) ?chunks"
      "progress st' = progress st
         @ (if progress_callback options
            then map (\<lambda>p. (p, length emails)) (running 0 ?chunks) else [])"
      by blast
    have p: "map payload (first_attempts new)
                 = map (\<lambda>k. bulk_body (slice emails (k * c) (k * c + c)) (batch_format options)
                              (batch_debug options) (share_signals options)) [0..<?m]"
      using new(2) by (simp add: comp_def)
    have "length (first_attempts new) = length (map payload (first_attempts new))"
      by simp
    also have "\<dots> = ?m" unfolding p by simp
    finally have l: "length (first_attempts new) = ?m" .
    have "progress_callback options \<longrightarrow>
                  progress st' = progress st
                    @ map (\<lambda>k. (min (k * c) (length emails), length emails)) [1..<Suc ?m]"
      using new(3) unfolding running_chunks by (simp add: comp_def del: upt_Suc)
    with new(1) p l show ?thesis by blast
  qed
  have 3: "concat ?chunks = emails" using assms(1) by (rule concat_chunks)
  have 4: "\<forall>k < ?m. length (slice emails (k * c) (k * c + c)) \<le> c
           \<and> slice emails (k * c) (k * c + c) \<noteq> []"
    using slice_bounds [OF assms(1)] by blast
  have 5: "(?m - 1) * c < length emails"
    using assms(1,2) by (intro ceil_least) auto
  have 6: "length emails \<le> ?m * c" using assms(1) by (rule ceil_covers)
  from 1 2 3 4 5 6 show ?thesis by blast
qed

lemma chunks_all_ok:
  assumes "\<And>chunk st. \<exists>r st1. processBatchChunk cfg world chunk fmt dbg share st = (Inr r, st1)"
  shows "\<exists>res st'. verifyBatch_chunks cfg world fmt dbg share cb ntotal chunks results processed st
            = (Inr res, st')"
proof (induction chunks arbitrary: results processed st)
  case Nil
  then show ?case by simp
next
  case (Cons chunk chunks)
  from assms [of chunk st] obtain r st1 where
    "processBatchChunk cfg world chunk fmt dbg share st = (Inr r, st1)" by blast
  then show ?case using Cons.IH by (simp add: Let_def)
qed

lemma indexed_world_ok:
  "\<exists>r st1. processBatchChunk cfg (always (ok_response example_indexed_body)) chunk COMPACT
              dbg share st = (Inr r, st1)"
  by (simp add: processBatchChunk_def makeRequest_ok processBatchChunk_result_def
      example_indexed_body_def typeof_object_def)

theorem verifyBatch_chunked_witness:
  "\<exists>res st'. verifyBatch example_config (always (ok_response example_indexed_body))
        (Some example_emails) example_chunked_options empty_trace = Some (Inr res, st')
     \<and> map payload (first_attempts (fetch_log st')) =
         [bulk_body [''a@example.com'', ''b@example.com''] COMPACT False None,
          bulk_body [''c@example.com'', ''d@example.com''] COMPACT False None,
          bulk_body [''e@example.com''] COMPACT False None]
     \<and> progress st' = [(2, 5), (4, 5), (5, 5)]"
proof -
  have h1: "0 < (2::nat)" by simp
  have h2: "2 < length example_emails" by (simp add: example_emails_def)
  have h3: "length example_emails \<le> 10000" by (simp add: example_emails_def)
  have h4: "batch_chunk_size example_config example_chunked_options = 2"
    by (simp add: batch_chunk_size_def example_chunked_options_def)
  have fmt: "batch_format example_chunked_options = COMPACT"
    and dbg: "batch_debug example_chunked_options = False"
    and sh: "share_signals example_chunked_options = None"
    and cb: "progress_callback example_chunked_options"
    by (simp_all add: batch_format_def batch_debug_def example_chunked_options_def)
  have "\<exists>res st'. verifyBatch example_config (always (ok_response example_indexed_body))
        (Some example_emails) example_chunked_options empty_trace = Some (Inr res, st')"
    unfolding verifyBatch_chunked_eq [OF h1 h2 h3 h4] fmt
    using chunks_all_ok [OF indexed_world_ok] by simp
  then obtain res st' where run:
    "verifyBatch example_config (always (ok_response example_indexed_body))
        (Some example_emails) example_chunked_options empty_trace = Some (Inr res, st')"
    by blast
  have three: "[0..<3] = [0, 1, 2::nat]" "[1..<Suc 3] = [1, 2, 3::nat]"
    by (simp_all add: upt_rec)
  from verifyBatch_chunked [OF h1 h2 h3 h4, of "always (ok_response example_indexed_body)"
      empty_trace] run
  obtain new where new: "fetch_log st' = fetch_log empty_trace @ new"
    "map payload (first_attempts new)
       = map (\<lambda>k. bulk_body (slice example_emails (k * 2) (k * 2 + 2))
               (batch_format example_chunked_options) (batch_debug example_chunked_options)
               (share_signals example_chunked_options))
           [0..<(length example_emails + 2 - 1) div 2]"
    "progress_callback example_chunked_options \<longrightarrow>
       progress st' = progress empty_trace
         @ map (\<lambda>k. (min (k * 2) (length example_emails), length example_emails))
             [1..<Suc ((length example_emails + 2 - 1) div 2)]"
    by blast
  have m: "(length example_emails + 2 - 1) div 2 = 3" by (simp add: example_emails_def)
  have "map payload (first_attempts (fetch_log st')) =
         [bulk_body [''a@example.com'', ''b@example.com''] COMPACT False None,
          bulk_body [''c@example.com'', ''d@example.com''] COMPACT False None,
          bulk_body [''e@example.com''] COMPACT False None]"
    using new(1,2) unfolding m three fmt dbg sh
    by (simp add: empty_trace_def example_emails_def slice_def)
  moreover have "progress st' = [(2, 5), (4, 5), (5, 5)]"
    using new(3) cb unfolding m three by (simp add: empty_trace_def example_emails_def)
  ultimately show ?thesis using run by (intro exI [of _ res] exI [of _ st']) simp
qed










end
